theory Spec2Isabelle
  imports Main "HOL-Library.Word"
begin

text \<open>
  A shallow embedding of \<^verbatim>\<open>github.com/zoobzio/vectql\<close>: the query tree and its
  validator (\<^verbatim>\<open>internal/types\<close>) and the four renderers (\<^verbatim>\<open>pkg/pinecone\<close>,
  \<^verbatim>\<open>pkg/qdrant\<close>, \<^verbatim>\<open>pkg/milvus\<close>, \<^verbatim>\<open>pkg/weaviate\<close>), followed by the properties
  of validation and rendering proved about them. Errors are values of a sum type, the
  accumulator behind \<^verbatim>\<open>params *[]string\<close> is passed explicitly, every loop is a
  recursive function, and the two things the Go code leaves to its runtime, the JSON
  encoder and the order in which \<^verbatim>\<open>range\<close> visits a map, are parameters.
\<close>

section \<open>The query tree of \<^verbatim>\<open>internal/types\<close>\<close>

text \<open>
  The Go package \<^verbatim>\<open>internal/types\<close> declares its enumerations as string types
  (\<^verbatim>\<open>type Operation string\<close>, \<^verbatim>\<open>type FilterOperator string\<close>,
  \<^verbatim>\<open>type LogicOperator string\<close>), so a value outside the listed constants can reach
  every \<^verbatim>\<open>switch\<close>; the \<^verbatim>\<open>default:\<close> branches are therefore part of the model
  and the three types stay strings here.
\<close>

type_synonym Operation = string

definition OpSearch :: Operation where "OpSearch = ''SEARCH''"
definition OpUpsert :: Operation where "OpUpsert = ''UPSERT''"
definition OpDelete :: Operation where "OpDelete = ''DELETE''"
definition OpFetch :: Operation where "OpFetch = ''FETCH''"
definition OpUpdate :: Operation where "OpUpdate = ''UPDATE''"

text \<open>Complexity limits (untyped Go constants, used at type \<^verbatim>\<open>int\<close>).\<close>

definition MaxFilterDepth :: int where "MaxFilterDepth = 5"
definition MaxBatchSize :: int where "MaxBatchSize = 100"
definition MaxTopK :: int where "MaxTopK = 10000"
definition MaxMetadataFields :: int where "MaxMetadataFields = 50"
definition MaxIDsPerFetch :: int where "MaxIDsPerFetch = 1000"

type_synonym FilterOperator = string

definition EQ :: FilterOperator where "EQ = ''=''"
definition NE :: FilterOperator where "NE = ''!=''"
definition GT :: FilterOperator where "GT = ''>''"
definition GE :: FilterOperator where "GE = ''>=''"
definition LT :: FilterOperator where "LT = ''<''"
definition LE :: FilterOperator where "LE = ''<=''"
definition IN :: FilterOperator where "IN = ''IN''"
definition NotIn :: FilterOperator where "NotIn = ''NOT_IN''"
definition Contains :: FilterOperator where "Contains = ''CONTAINS''"
definition StartsWith :: FilterOperator where "StartsWith = ''STARTS_WITH''"
definition EndsWith :: FilterOperator where "EndsWith = ''ENDS_WITH''"
definition Matches :: FilterOperator where "Matches = ''MATCHES''"
definition Exists :: FilterOperator where "Exists = ''EXISTS''"
definition NotExists :: FilterOperator where "NotExists = ''NOT_EXISTS''"
definition ArrayContains :: FilterOperator where "ArrayContains = ''ARRAY_CONTAINS''"
definition ArrayContainsAny :: FilterOperator where "ArrayContainsAny = ''ARRAY_CONTAINS_ANY''"
definition ArrayContainsAll :: FilterOperator where "ArrayContainsAll = ''ARRAY_CONTAINS_ALL''"

type_synonym LogicOperator = string

definition AND :: LogicOperator where "AND = ''AND''"
definition OR :: LogicOperator where "OR = ''OR''"
definition NOT :: LogicOperator where "NOT = ''NOT''"

text \<open>
  Modelled from the spec: the declarations of \<^verbatim>\<open>Param\<close> and \<^verbatim>\<open>Collection\<close> are not
  among the source files. The spec describes a \<^verbatim>\<open>Param\<close> as a named placeholder that
  never carries a value and a \<^verbatim>\<open>Collection\<close> as an opaque name handle; the code reads
  only their \<^verbatim>\<open>Name\<close> field. Field names carry a prefix where two Go structs share
  one (\<^verbatim>\<open>Name\<close>, \<^verbatim>\<open>Collection\<close>, \<^verbatim>\<open>Param\<close>).
\<close>

record Param =
  Name :: string

record Collection =
  CollectionName :: string

record MetadataField =
  FieldName :: string
  FieldCollection :: string

record EmbeddingField =
  EmbeddingName :: string
  EmbeddingCollection :: string

text \<open>
  A \<^verbatim>\<open>float32\<close> is kept as its 32 bits: the code never computes with one, it only
  hands literals to the JSON encoder. A slice that the code may receive as \<^verbatim>\<open>nil\<close>
  and passes on to the encoder is an \<open>option\<close> (\<open>None\<close> is \<^verbatim>\<open>nil\<close>); a pointer
  field is an \<open>option\<close> as well.
\<close>

type_synonym float32 = "32 word"

record VectorValue =
  VecLiteral :: "float32 list option"
  VecParam :: "Param option"

record SparseVectorValue =
  SparseIndices :: "int list option"
  SparseValues :: "float32 list option"
  SparseParam :: "Param option"

record VectorRecord =
  ID :: Param
  Vector :: VectorValue
  Metadata :: "MetadataField \<rightharpoonup> Param"
  SparseVector :: "SparseVectorValue option"

record PaginationValue =
  Static :: "int option"
  PageParam :: "Param option"

record GeoPoint =
  Lat :: Param
  Lon :: Param

text \<open>
  The interface \<^verbatim>\<open>FilterItem\<close> has an unexported method, so the types that implement
  it are the four struct types of the package and, through their method sets, the pointers
  to them. A value of the interface is therefore a value of one of the four structs, a
  pointer to one of them, or \<^verbatim>\<open>nil\<close>: \<^verbatim>\<open>And(nil)\<close> and \<^verbatim>\<open>Builder.Filter(nil)\<close> on a
  builder that has a filter put a \<^verbatim>\<open>nil\<close> item into a group. No type switch of the code
  has a case for a pointer or for \<^verbatim>\<open>nil\<close>, so no walk looks behind a pointer: a
  \<open>PointerItem\<close> keeps only the name of the struct it points to, which \<^verbatim>\<open>%T\<close> prints
  after a star (\<^verbatim>\<open>*types.FilterGroup\<close>), and \<^verbatim>\<open>%T\<close> of a \<open>NilItem\<close> prints \<^verbatim>\<open><nil>\<close>.
  A \<^verbatim>\<open>FilterClause\<close> that is \<^verbatim>\<open>nil\<close> itself is \<open>None\<close> in \<open>VectorAST\<close>.
\<close>

datatype FilterItem =
    FilterCondition MetadataField FilterOperator Param
  | FilterGroup LogicOperator "FilterItem list"
  | RangeFilter MetadataField "Param option" "Param option" bool bool
  | GeoFilter MetadataField GeoPoint Param
  | PointerItem string
  | NilItem

record VectorAST =
  Operation :: Operation
  Target :: Collection
  QueryVector :: "VectorValue option"
  QueryEmbedding :: "EmbeddingField option"
  TopK :: "PaginationValue option"
  MinScore :: "Param option"
  IncludeVectors :: bool
  IncludeMetadata :: bool
  FilterClause :: "FilterItem option"
  MetadataFields :: "MetadataField list"
  Vectors :: "VectorRecord list"
  Updates :: "MetadataField \<rightharpoonup> Param"
  IDs :: "Param list"
  DeleteAll :: bool
  Namespace :: "Param option"

subsection \<open>Errors\<close>

text \<open>
  One constructor for each \<^verbatim>\<open>fmt.Errorf\<close> of the validator and the renderers, with
  the values its format string prints; \<open>error_message\<close> gives the text. \<open>show_int\<close> is
  \<^verbatim>\<open>%d\<close>; its recursion is bounded by the number itself, which has more than enough
  digits. The text of \<open>SerializeFailed\<close> ends with the encoder's own message, which is not
  modelled.
\<close>

datatype error =
    TargetRequired
  | UnsupportedOperation string
  | SearchRequiresVector
  | SearchRequiresTopK
  | TopKExceeds int int
  | TopKNotPositive int
  | MetadataFieldsExceed int int
  | UpsertRequiresVector
  | BatchSizeExceeds int int
  | DeleteRequiresIDsOrFilter
  | DeleteRequiresDeleteAll
  | TooManyIDs int int
  | FetchRequiresID
  | UpdateRequiresID
  | UpdateRequiresField
  | FilterTooDeep int int
  | InvalidAST error
  | UnsupportedFilterType string
  | SerializeFailed

fun digit_char :: "nat \<Rightarrow> char" where
  "digit_char n = char_of (48 + n)"

fun show_nat_fuel :: "nat \<Rightarrow> nat \<Rightarrow> string" where
  "show_nat_fuel 0 n = [digit_char (n mod 10)]"
| "show_nat_fuel (Suc k) n =
     (if n < 10 then [digit_char n] else show_nat_fuel k (n div 10) @ [digit_char (n mod 10)])"

definition show_int :: "int \<Rightarrow> string" where
  "show_int i = (if i < 0 then CHR ''-'' # show_nat_fuel (nat (- i)) (nat (- i))
                 else show_nat_fuel (nat i) (nat i))"

fun error_message :: "error \<Rightarrow> string" where
  "error_message TargetRequired = ''target collection is required''"
| "error_message (UnsupportedOperation op) = ''unsupported operation: '' @ op"
| "error_message SearchRequiresVector = ''SEARCH requires a query vector''"
| "error_message SearchRequiresTopK = ''SEARCH requires TopK''"
| "error_message (TopKExceeds k m) = ''TopK exceeds maximum: '' @ show_int k @ '' > '' @ show_int m"
| "error_message (TopKNotPositive k) = ''TopK must be positive: '' @ show_int k"
| "error_message (MetadataFieldsExceed n m) =
     ''metadata fields exceed maximum: '' @ show_int n @ '' > '' @ show_int m"
| "error_message UpsertRequiresVector = ''UPSERT requires at least one vector''"
| "error_message (BatchSizeExceeds n m) =
     ''batch size exceeds maximum: '' @ show_int n @ '' > '' @ show_int m"
| "error_message DeleteRequiresIDsOrFilter = ''DELETE requires either IDs or a filter''"
| "error_message DeleteRequiresDeleteAll = ''DELETE by filter requires DeleteAll() flag for safety''"
| "error_message (TooManyIDs n m) = ''too many IDs: '' @ show_int n @ '' > '' @ show_int m"
| "error_message FetchRequiresID = ''FETCH requires at least one ID''"
| "error_message UpdateRequiresID = ''UPDATE requires at least one ID''"
| "error_message UpdateRequiresField = ''UPDATE requires at least one field to update''"
| "error_message (FilterTooDeep d m) =
     ''filter nesting too deep: '' @ show_int d @ '' > '' @ show_int m"
| "error_message (InvalidAST e) = ''invalid AST: '' @ error_message e"
| "error_message (UnsupportedFilterType t) = ''unsupported filter type: '' @ t"
| "error_message SerializeFailed = ''failed to serialize query: ''"

section \<open>Validation (\<^verbatim>\<open>internal/types/ast.go\<close>)\<close>

text \<open>
  \<^verbatim>\<open>validateFilterDepth\<close> checks the depth it was called with before it looks at the
  node, then walks the children of a \<^verbatim>\<open>FilterGroup\<close> one level deeper and returns the
  first error. \<open>None\<close> is Go's \<^verbatim>\<open>nil\<close> error.
\<close>

fun validateFilterDepth :: "FilterItem \<Rightarrow> int \<Rightarrow> error option"
  and validateFilterDepth_loop :: "FilterItem list \<Rightarrow> int \<Rightarrow> error option" where
  "validateFilterDepth f depth =
     (if depth > MaxFilterDepth then Some (FilterTooDeep depth MaxFilterDepth)
      else (case f of
              FilterGroup logic conditions \<Rightarrow> validateFilterDepth_loop conditions (depth + 1)
            | _ \<Rightarrow> None))"
| "validateFilterDepth_loop [] depth = None"
| "validateFilterDepth_loop (c # cs) depth =
     (case validateFilterDepth c depth of
        Some err \<Rightarrow> Some err
      | None \<Rightarrow> validateFilterDepth_loop cs depth)"

definition validateSearch :: "VectorAST \<Rightarrow> error option" where
  "validateSearch ast =
     (case QueryVector ast of
        None \<Rightarrow> Some SearchRequiresVector
      | Some queryVector \<Rightarrow>
     (case TopK ast of
        None \<Rightarrow> Some SearchRequiresTopK
      | Some topK \<Rightarrow>
          if Static topK \<noteq> None \<and> the (Static topK) > MaxTopK
            then Some (TopKExceeds (the (Static topK)) MaxTopK)
          else if Static topK \<noteq> None \<and> the (Static topK) \<le> 0
            then Some (TopKNotPositive (the (Static topK)))
          else if int (length (MetadataFields ast)) > MaxMetadataFields
            then Some (MetadataFieldsExceed (int (length (MetadataFields ast))) MaxMetadataFields)
          else (case FilterClause ast of
                  Some f \<Rightarrow> validateFilterDepth f 0
                | None \<Rightarrow> None)))"

definition validateUpsert :: "VectorAST \<Rightarrow> error option" where
  "validateUpsert ast =
     (if length (Vectors ast) = 0 then Some UpsertRequiresVector
      else if int (length (Vectors ast)) > MaxBatchSize
        then Some (BatchSizeExceeds (int (length (Vectors ast))) MaxBatchSize)
      else None)"

definition validateDelete :: "VectorAST \<Rightarrow> error option" where
  "validateDelete ast =
     (if length (IDs ast) = 0 \<and> FilterClause ast = None then Some DeleteRequiresIDsOrFilter
      else if FilterClause ast \<noteq> None \<and> \<not> DeleteAll ast then Some DeleteRequiresDeleteAll
      else if int (length (IDs ast)) > MaxIDsPerFetch
        then Some (TooManyIDs (int (length (IDs ast))) MaxIDsPerFetch)
      else None)"

definition validateFetch :: "VectorAST \<Rightarrow> error option" where
  "validateFetch ast =
     (if length (IDs ast) = 0 then Some FetchRequiresID
      else if int (length (IDs ast)) > MaxIDsPerFetch
        then Some (TooManyIDs (int (length (IDs ast))) MaxIDsPerFetch)
      else None)"

definition validateUpdate :: "VectorAST \<Rightarrow> error option" where
  "validateUpdate ast =
     (if length (IDs ast) = 0 then Some UpdateRequiresID
      else if Updates ast = Map.empty then Some UpdateRequiresField
      else if int (length (IDs ast)) > MaxIDsPerFetch
        then Some (TooManyIDs (int (length (IDs ast))) MaxIDsPerFetch)
      else None)"

definition Validate :: "VectorAST \<Rightarrow> error option" where
  "Validate ast =
     (if CollectionName (Target ast) = [] then Some TargetRequired
      else if Operation ast = OpSearch then validateSearch ast
      else if Operation ast = OpUpsert then validateUpsert ast
      else if Operation ast = OpDelete then validateDelete ast
      else if Operation ast = OpFetch then validateFetch ast
      else if Operation ast = OpUpdate then validateUpdate ast
      else Some (UnsupportedOperation (Operation ast)))"

section \<open>The rendered document\<close>

text \<open>
  Every renderer assembles a \<^verbatim>\<open>map[string]interface{}\<close> and hands it to
  \<^verbatim>\<open>json.Marshal\<close>. The in-memory document is a tree whose objects are Go maps:
  writing a key twice keeps the last value, and the order of the writes is not part of the
  value. \<^verbatim>\<open>json.Marshal\<close> belongs to the standard library, not to this repository,
  so it is a parameter \<open>marshal\<close> of the renderers; \<open>None\<close> is its error return
  (it has one, for instance on a \<^verbatim>\<open>NaN\<close> component of a literal vector).
\<close>

datatype json =
    JNull
  | JBool bool
  | JInt int
  | JStr string
  | JFloats "float32 list"
  | JInts "int list"
  | JArr "json list"
  | JObj "string \<rightharpoonup> json"

record QueryResult =
  JSON :: string
  RequiredParams :: "string list"

type_synonym marshaller = "json \<Rightarrow> string option"

text \<open>
  \<^verbatim>\<open>toResult\<close> is declared, with the same body, in each of the four renderer
  packages.
\<close>

definition toResult :: "marshaller \<Rightarrow> (string \<rightharpoonup> json) \<Rightarrow> string list \<Rightarrow> error + QueryResult" where
  "toResult marshal query params =
     (case marshal (JObj query) of
        None \<Rightarrow> Inl SerializeFailed
      | Some jsonBytes \<Rightarrow> Inr \<lparr>JSON = jsonBytes, RequiredParams = params\<rparr>)"

text \<open>\<^verbatim>\<open>fmt.Sprintf(":%s", name)\<close>\<close>

definition placeholder :: "string \<Rightarrow> string" where
  "placeholder name = '':'' @ name"

definition floats_json :: "float32 list option \<Rightarrow> json" where
  "floats_json v = (case v of None \<Rightarrow> JNull | Some xs \<Rightarrow> JFloats xs)"

definition ints_json :: "int list option \<Rightarrow> json" where
  "ints_json v = (case v of None \<Rightarrow> JNull | Some xs \<Rightarrow> JInts xs)"

text \<open>
  The renderers thread two things through every block: the document under construction
  and the accumulator behind \<^verbatim>\<open>params *[]string\<close>. The blocks below recur, with
  different keys, in all four packages.

  \<open>emit_param key p\<close> is
  \<^verbatim>\<open>*params = append(*params, p.Name); query[key] = fmt.Sprintf(":%s", p.Name)\<close>.
\<close>

type_synonym emit = "(string \<rightharpoonup> json) \<times> string list"

definition emit_param :: "string \<Rightarrow> Param \<Rightarrow> emit \<Rightarrow> emit" where
  "emit_param key p = (\<lambda>(query, params).
     (query(key \<mapsto> JStr (placeholder (Name p))), params @ [Name p]))"

text \<open>\<^verbatim>\<open>if p != nil { ... }\<close> around the block above.\<close>

definition emit_opt_param :: "string \<Rightarrow> Param option \<Rightarrow> emit \<Rightarrow> emit" where
  "emit_opt_param key p st = (case p of None \<Rightarrow> st | Some q \<Rightarrow> emit_param key q st)"

text \<open>
  \<^verbatim>\<open>if ast.TopK != nil { if ast.TopK.Static != nil { query[key] = *ast.TopK.Static }
  else if ast.TopK.Param != nil { ... } }\<close>
\<close>

definition emit_topK :: "string \<Rightarrow> PaginationValue option \<Rightarrow> emit \<Rightarrow> emit" where
  "emit_topK key topK st =
     (case topK of
        None \<Rightarrow> st
      | Some t \<Rightarrow>
          (case Static t of
             Some s \<Rightarrow> (case st of (query, params) \<Rightarrow> (query(key \<mapsto> JInt s), params))
           | None \<Rightarrow> emit_opt_param key (PageParam t) st))"

text \<open>
  \<^verbatim>\<open>if v.Param != nil { ... } else { query[key] = v.Literal }\<close>
\<close>

definition emit_vector :: "string \<Rightarrow> VectorValue \<Rightarrow> emit \<Rightarrow> emit" where
  "emit_vector key v st =
     (case VecParam v of
        Some p \<Rightarrow> emit_param key p st
      | None \<Rightarrow> (case st of (query, params) \<Rightarrow> (query(key \<mapsto> floats_json (VecLiteral v)), params)))"

text \<open>
  \<^verbatim>\<open>for i, id := range ast.IDs { *params = append(*params, id.Name);
  ids[i] = fmt.Sprintf(":%s", id.Name) }\<close>: the placeholders written so far and the
  accumulator.
\<close>

fun ids_loop :: "Param list \<Rightarrow> string list \<Rightarrow> string list \<Rightarrow> string list \<times> string list" where
  "ids_loop [] ids params = (ids, params)"
| "ids_loop (i # rest) ids params =
     ids_loop rest (ids @ [placeholder (Name i)]) (params @ [Name i])"

definition strings_json :: "string list \<Rightarrow> json" where
  "strings_json xs = JArr (map JStr xs)"

text \<open>
  Ranging over a Go map visits the entries in an order the runtime chooses afresh for every
  \<^verbatim>\<open>range\<close> statement. The order is therefore an input of the model: a renderer takes a
  \<open>ranging\<close>, which gives for the \<open>i\<close>-th execution of a \<^verbatim>\<open>range\<close> over a map the
  sequence of entries that execution visits. \<open>is_range_of\<close> says that a sequence is one
  the runtime can produce for a map: every entry once.
\<close>

type_synonym ranging = "nat \<Rightarrow> (MetadataField \<times> Param) list"

definition is_range_of :: "(MetadataField \<times> Param) list \<Rightarrow> (MetadataField \<rightharpoonup> Param) \<Rightarrow> bool" where
  "is_range_of entries m \<longleftrightarrow> distinct (map fst entries) \<and> map_of entries = m"

text \<open>
  \<^verbatim>\<open>for field, value := range m { *params = append(*params, value.Name);
  obj[field.Name] = fmt.Sprintf(":%s", value.Name) }\<close>
\<close>

fun range_loop :: "(MetadataField \<times> Param) list \<Rightarrow> emit \<Rightarrow> emit" where
  "range_loop [] st = st"
| "range_loop ((field, value) # rest) st = range_loop rest (emit_param (FieldName field) value st)"

section \<open>The Pinecone renderer (\<^verbatim>\<open>pkg/pinecone\<close>)\<close>

definition pinecone_mapOperator :: "FilterOperator \<Rightarrow> string" where
  "pinecone_mapOperator op =
     (if op = EQ then ''$eq''
      else if op = NE then ''$ne''
      else if op = GT then ''$gt''
      else if op = GE then ''$gte''
      else if op = LT then ''$lt''
      else if op = LE then ''$lte''
      else if op = IN then ''$in''
      else if op = NotIn then ''$nin''
      else ''$eq'')"

definition pinecone_mapLogic :: "LogicOperator \<Rightarrow> string" where
  "pinecone_mapLogic logic =
     (if logic = AND then ''$and''
      else if logic = OR then ''$or''
      else if logic = NOT then ''$not''
      else ''$and'')"

text \<open>
  \<^verbatim>\<open>renderFilter\<close> has cases for \<^verbatim>\<open>FilterCondition\<close>, \<^verbatim>\<open>FilterGroup\<close> and
  \<^verbatim>\<open>RangeFilter\<close>; a \<^verbatim>\<open>GeoFilter\<close> reaches \<^verbatim>\<open>default:\<close>, whose \<^verbatim>\<open>%T\<close>
  prints \<^verbatim>\<open>types.GeoFilter\<close>, and so do a pointer and a \<^verbatim>\<open>nil\<close> item. The second
  function is the loop over the children of a group, with the slice \<^verbatim>\<open>conditions\<close>
  built so far.
\<close>

fun pinecone_renderFilter :: "FilterItem \<Rightarrow> string list \<Rightarrow> error + json \<times> string list"
  and pinecone_renderFilter_loop ::
    "FilterItem list \<Rightarrow> json list \<Rightarrow> string list \<Rightarrow> error + json list \<times> string list" where
  "pinecone_renderFilter (FilterCondition field operator value) params =
     Inr (JObj [FieldName field \<mapsto>
                 JObj [pinecone_mapOperator operator \<mapsto> JStr (placeholder (Name value))]],
          params @ [Name value])"
| "pinecone_renderFilter (FilterGroup logic conditions) params =
     (case pinecone_renderFilter_loop conditions [] params of
        Inl err \<Rightarrow> Inl err
      | Inr (rendered, params') \<Rightarrow> Inr (JObj [pinecone_mapLogic logic \<mapsto> JArr rendered], params'))"
| "pinecone_renderFilter (RangeFilter field minp maxp minExclusive maxExclusive) params =
     (let st = (Map.empty, params);
          st = (case minp of
                  None \<Rightarrow> st
                | Some m \<Rightarrow> emit_param (if minExclusive then ''$gt'' else ''$gte'') m st);
          st = (case maxp of
                  None \<Rightarrow> st
                | Some m \<Rightarrow> emit_param (if maxExclusive then ''$lt'' else ''$lte'') m st)
      in Inr (JObj [FieldName field \<mapsto> JObj (fst st)], snd st))"
| "pinecone_renderFilter (GeoFilter field center radius) params =
     Inl (UnsupportedFilterType ''types.GeoFilter'')"
| "pinecone_renderFilter (PointerItem pointee) params =
     Inl (UnsupportedFilterType (''*'' @ pointee))"
| "pinecone_renderFilter NilItem params =
     Inl (UnsupportedFilterType ''<nil>'')"
| "pinecone_renderFilter_loop [] rendered params = Inr (rendered, params)"
| "pinecone_renderFilter_loop (c # cs) rendered params =
     (case pinecone_renderFilter c params of
        Inl err \<Rightarrow> Inl err
      | Inr (r, params') \<Rightarrow> pinecone_renderFilter_loop cs (rendered @ [r]) params')"

text \<open>
  \<^verbatim>\<open>if ast.FilterClause != nil { filter, err := r.renderFilter(...); if err != nil
  { return nil, err }; query[key] = filter }\<close>, for a filter renderer \<open>rf\<close>.
\<close>

definition emit_filter ::
  "(FilterItem \<Rightarrow> string list \<Rightarrow> error + json \<times> string list) \<Rightarrow> string \<Rightarrow> FilterItem option \<Rightarrow>
     emit \<Rightarrow> error + emit" where
  "emit_filter rf key filterClause st =
     (case filterClause of
        None \<Rightarrow> Inr st
      | Some f \<Rightarrow>
          (case rf f (snd st) of
             Inl err \<Rightarrow> Inl err
           | Inr (rendered, params') \<Rightarrow> Inr ((fst st)(key \<mapsto> rendered), params')))"

definition pinecone_renderSearch :: "marshaller \<Rightarrow> VectorAST \<Rightarrow> string list \<Rightarrow> error + QueryResult" where
  "pinecone_renderSearch marshal ast params =
     (let st = (Map.empty, params);
          st = emit_topK ''topK'' (TopK ast) st;
          st = ((fst st)(''includeValues'' \<mapsto> JBool (IncludeVectors ast),
                         ''includeMetadata'' \<mapsto> JBool (IncludeMetadata ast)), snd st);
          st = (case QueryVector ast of None \<Rightarrow> st | Some v \<Rightarrow> emit_vector ''vector'' v st)
      in case emit_filter pinecone_renderFilter ''filter'' (FilterClause ast) st of
           Inl err \<Rightarrow> Inl err
         | Inr st \<Rightarrow>
             (let st = emit_opt_param ''namespace'' (Namespace ast) st
              in toResult marshal (fst st) (snd st)))"

text \<open>
  The body of the loop of \<^verbatim>\<open>renderUpsert\<close> for one record; \<open>entries\<close> is the order in
  which this execution of \<^verbatim>\<open>range record.Metadata\<close> visits the map.
\<close>

definition pinecone_upsert_record ::
  "(MetadataField \<times> Param) list \<Rightarrow> VectorRecord \<Rightarrow> string list \<Rightarrow> json \<times> string list" where
  "pinecone_upsert_record entries record params =
     (let st = (Map.empty, params);
          st = emit_param ''id'' (ID record) st;
          st = emit_vector ''values'' (Vector record) st;
          st = (if Metadata record \<noteq> Map.empty
                then (let md = range_loop entries (Map.empty, snd st)
                      in ((fst st)(''metadata'' \<mapsto> JObj (fst md)), snd md))
                else st);
          st = (case SparseVector record of
                  None \<Rightarrow> st
                | Some sv \<Rightarrow>
                    (case SparseParam sv of
                       Some p \<Rightarrow> emit_param ''sparseValues'' p st
                     | None \<Rightarrow>
                         ((fst st)(''sparseValues'' \<mapsto>
                            JObj [''indices'' \<mapsto> ints_json (SparseIndices sv),
                                  ''values'' \<mapsto> floats_json (SparseValues sv)]), snd st)))
      in (JObj (fst st), snd st))"

text \<open>
  \<^verbatim>\<open>for i, record := range ast.Vectors { ...; vectors[i] = vec }\<close>, for a loop body
  \<open>body\<close>: \<open>i\<close> is the index of the next record, \<open>vectors\<close> the entries filled so far.
\<close>

fun records_loop ::
  "((MetadataField \<times> Param) list \<Rightarrow> VectorRecord \<Rightarrow> string list \<Rightarrow> json \<times> string list) \<Rightarrow>
     ranging \<Rightarrow> nat \<Rightarrow> VectorRecord list \<Rightarrow> json list \<Rightarrow> string list \<Rightarrow> json list \<times> string list" where
  "records_loop body rng i [] vectors params = (vectors, params)"
| "records_loop body rng i (record # rest) vectors params =
     (case body (rng i) record params of
        (vec, params') \<Rightarrow> records_loop body rng (Suc i) rest (vectors @ [vec]) params')"

definition pinecone_renderUpsert ::
  "marshaller \<Rightarrow> ranging \<Rightarrow> VectorAST \<Rightarrow> string list \<Rightarrow> error + QueryResult" where
  "pinecone_renderUpsert marshal rng ast params =
     (case records_loop pinecone_upsert_record rng 0 (Vectors ast) [] params of
        (vectors, params') \<Rightarrow>
          (let st = ([''vectors'' \<mapsto> JArr vectors], params');
               st = emit_opt_param ''namespace'' (Namespace ast) st
           in toResult marshal (fst st) (snd st)))"

definition pinecone_renderDelete :: "marshaller \<Rightarrow> VectorAST \<Rightarrow> string list \<Rightarrow> error + QueryResult" where
  "pinecone_renderDelete marshal ast params =
     (let st = (Map.empty, params);
          r = (if length (IDs ast) > 0
               then (case ids_loop (IDs ast) [] (snd st) of
                       (ids, params') \<Rightarrow> Inr ((fst st)(''ids'' \<mapsto> strings_json ids), params'))
               else if FilterClause ast \<noteq> None \<and> DeleteAll ast
               then (case emit_filter pinecone_renderFilter ''filter'' (FilterClause ast) st of
                       Inl err \<Rightarrow> Inl err
                     | Inr st' \<Rightarrow> Inr ((fst st')(''deleteAll'' \<mapsto> JBool False), snd st'))
               else Inr st)
      in case r of
           Inl err \<Rightarrow> Inl err
         | Inr st \<Rightarrow>
             (let st = emit_opt_param ''namespace'' (Namespace ast) st
              in toResult marshal (fst st) (snd st)))"

definition pinecone_renderFetch :: "marshaller \<Rightarrow> VectorAST \<Rightarrow> string list \<Rightarrow> error + QueryResult" where
  "pinecone_renderFetch marshal ast params =
     (case ids_loop (IDs ast) [] params of
        (ids, params') \<Rightarrow>
          (let st = ([''ids'' \<mapsto> strings_json ids], params');
               st = emit_opt_param ''namespace'' (Namespace ast) st
           in toResult marshal (fst st) (snd st)))"

text \<open>
  \<^verbatim>\<open>renderUpdate\<close> uses only \<^verbatim>\<open>ast.IDs[0]\<close> (``Pinecone update is per-ID, so we use
  the first ID''), after its own check that there is one.
\<close>

definition pinecone_renderUpdate ::
  "marshaller \<Rightarrow> ranging \<Rightarrow> VectorAST \<Rightarrow> string list \<Rightarrow> error + QueryResult" where
  "pinecone_renderUpdate marshal rng ast params =
     (case IDs ast of
        [] \<Rightarrow> Inl UpdateRequiresID
      | id0 # _ \<Rightarrow>
          (let st = emit_param ''id'' id0 (Map.empty, params);
               st = (if Updates ast \<noteq> Map.empty
                     then (let md = range_loop (rng 0) (Map.empty, snd st)
                           in ((fst st)(''setMetadata'' \<mapsto> JObj (fst md)), snd md))
                     else st);
               st = emit_opt_param ''namespace'' (Namespace ast) st
           in toResult marshal (fst st) (snd st)))"

definition pinecone_Render :: "marshaller \<Rightarrow> ranging \<Rightarrow> VectorAST \<Rightarrow> error + QueryResult" where
  "pinecone_Render marshal rng ast =
     (case Validate ast of
        Some err \<Rightarrow> Inl (InvalidAST err)
      | None \<Rightarrow>
          (let params = [] in
           if Operation ast = OpSearch then pinecone_renderSearch marshal ast params
           else if Operation ast = OpUpsert then pinecone_renderUpsert marshal rng ast params
           else if Operation ast = OpDelete then pinecone_renderDelete marshal ast params
           else if Operation ast = OpFetch then pinecone_renderFetch marshal ast params
           else if Operation ast = OpUpdate then pinecone_renderUpdate marshal rng ast params
           else Inl (UnsupportedOperation (Operation ast))))"

section \<open>The Qdrant renderer (\<^verbatim>\<open>pkg/qdrant\<close>)\<close>

definition condMust :: string where "condMust = ''must''"
definition condMustNot :: string where "condMustNot = ''must_not''"
definition condShould :: string where "condShould = ''should''"

record qdrant_Renderer =
  DefaultVectorName :: string

definition qdrant_New :: qdrant_Renderer where
  "qdrant_New = \<lparr>DefaultVectorName = []\<rparr>"

definition qdrant_mapConditionType :: "FilterOperator \<Rightarrow> string" where
  "qdrant_mapConditionType op = (if op = NE then condMustNot else condMust)"

definition qdrant_mapLogic :: "LogicOperator \<Rightarrow> string" where
  "qdrant_mapLogic logic =
     (if logic = AND then condMust
      else if logic = OR then condShould
      else if logic = NOT then condMustNot
      else condMust)"

text \<open>
  The type switch of \<^verbatim>\<open>renderFilter\<close> has a case for each of the four structs; a pointer
  and a \<^verbatim>\<open>nil\<close> item reach \<^verbatim>\<open>default:\<close>.
\<close>

fun qdrant_renderFilter :: "FilterItem \<Rightarrow> string list \<Rightarrow> error + json \<times> string list"
  and qdrant_renderFilter_loop ::
    "FilterItem list \<Rightarrow> json list \<Rightarrow> string list \<Rightarrow> error + json list \<times> string list" where
  "qdrant_renderFilter (FilterCondition field operator value) params =
     Inr (JObj [qdrant_mapConditionType operator \<mapsto>
                 JArr [JObj [''key'' \<mapsto> JStr (FieldName field),
                             ''match'' \<mapsto> JObj [''value'' \<mapsto> JStr (placeholder (Name value))]]]],
          params @ [Name value])"
| "qdrant_renderFilter (FilterGroup logic conditions) params =
     (case qdrant_renderFilter_loop conditions [] params of
        Inl err \<Rightarrow> Inl err
      | Inr (rendered, params') \<Rightarrow> Inr (JObj [qdrant_mapLogic logic \<mapsto> JArr rendered], params'))"
| "qdrant_renderFilter (RangeFilter field minp maxp minExclusive maxExclusive) params =
     (let rangeCondition = [''key'' \<mapsto> JStr (FieldName field)];
          st = (Map.empty, params);
          st = (case minp of
                  None \<Rightarrow> st
                | Some m \<Rightarrow> emit_param (if minExclusive then ''gt'' else ''gte'') m st);
          st = (case maxp of
                  None \<Rightarrow> st
                | Some m \<Rightarrow> emit_param (if maxExclusive then ''lt'' else ''lte'') m st);
          rangeCondition = rangeCondition(''range'' \<mapsto> JObj (fst st))
      in Inr (JObj [condMust \<mapsto> JArr [JObj rangeCondition]], snd st))"
| "qdrant_renderFilter (GeoFilter field center radius) params =
     Inr (JObj [condMust \<mapsto>
                 JArr [JObj [''key'' \<mapsto> JStr (FieldName field),
                             ''geo_radius'' \<mapsto>
                               JObj [''center'' \<mapsto>
                                       JObj [''lat'' \<mapsto> JStr (placeholder (Name (Lat center))),
                                             ''lon'' \<mapsto> JStr (placeholder (Name (Lon center)))],
                                     ''radius'' \<mapsto> JStr (placeholder (Name radius))]]]],
          ((params @ [Name (Lat center)]) @ [Name (Lon center)]) @ [Name radius])"
| "qdrant_renderFilter (PointerItem pointee) params =
     Inl (UnsupportedFilterType (''*'' @ pointee))"
| "qdrant_renderFilter NilItem params =
     Inl (UnsupportedFilterType ''<nil>'')"
| "qdrant_renderFilter_loop [] rendered params = Inr (rendered, params)"
| "qdrant_renderFilter_loop (c # cs) rendered params =
     (case qdrant_renderFilter c params of
        Inl err \<Rightarrow> Inl err
      | Inr (r, params') \<Rightarrow> qdrant_renderFilter_loop cs (rendered @ [r]) params')"

definition qdrant_renderSearch ::
  "qdrant_Renderer \<Rightarrow> marshaller \<Rightarrow> VectorAST \<Rightarrow> string list \<Rightarrow> error + QueryResult" where
  "qdrant_renderSearch r marshal ast params =
     (let vq = (Map.empty, params);
          vq = (case QueryVector ast of None \<Rightarrow> vq | Some v \<Rightarrow> emit_vector ''vector'' v vq);
          vectorQuery =
            (if QueryEmbedding ast \<noteq> None \<and> EmbeddingName (the (QueryEmbedding ast)) \<noteq> []
             then (fst vq)(''name'' \<mapsto> JStr (EmbeddingName (the (QueryEmbedding ast))))
             else if DefaultVectorName r \<noteq> []
             then (fst vq)(''name'' \<mapsto> JStr (DefaultVectorName r))
             else fst vq);
          st = ([''query'' \<mapsto> JObj vectorQuery], snd vq);
          st = emit_topK ''limit'' (TopK ast) st;
          st = emit_opt_param ''score_threshold'' (MinScore ast) st;
          st = ((fst st)(''with_payload'' \<mapsto> JBool (IncludeMetadata ast),
                         ''with_vector'' \<mapsto> JBool (IncludeVectors ast)), snd st)
      in case emit_filter qdrant_renderFilter ''filter'' (FilterClause ast) st of
           Inl err \<Rightarrow> Inl err
         | Inr st \<Rightarrow> toResult marshal (fst st) (snd st))"

definition qdrant_upsert_record ::
  "(MetadataField \<times> Param) list \<Rightarrow> VectorRecord \<Rightarrow> string list \<Rightarrow> json \<times> string list" where
  "qdrant_upsert_record entries record params =
     (let st = (Map.empty, params);
          st = emit_param ''id'' (ID record) st;
          st = emit_vector ''vector'' (Vector record) st;
          st = (if Metadata record \<noteq> Map.empty
                then (let md = range_loop entries (Map.empty, snd st)
                      in ((fst st)(''payload'' \<mapsto> JObj (fst md)), snd md))
                else st)
      in (JObj (fst st), snd st))"

definition qdrant_renderUpsert ::
  "marshaller \<Rightarrow> ranging \<Rightarrow> VectorAST \<Rightarrow> string list \<Rightarrow> error + QueryResult" where
  "qdrant_renderUpsert marshal rng ast params =
     (case records_loop qdrant_upsert_record rng 0 (Vectors ast) [] params of
        (points, params') \<Rightarrow> toResult marshal [''points'' \<mapsto> JArr points] params')"

definition qdrant_renderDelete :: "marshaller \<Rightarrow> VectorAST \<Rightarrow> string list \<Rightarrow> error + QueryResult" where
  "qdrant_renderDelete marshal ast params =
     (let st = (Map.empty, params);
          r = (if length (IDs ast) > 0
               then (case ids_loop (IDs ast) [] (snd st) of
                       (ids, params') \<Rightarrow> Inr ((fst st)(''points'' \<mapsto> strings_json ids), params'))
               else if FilterClause ast \<noteq> None \<and> DeleteAll ast
               then emit_filter qdrant_renderFilter ''filter'' (FilterClause ast) st
               else Inr st)
      in case r of
           Inl err \<Rightarrow> Inl err
         | Inr st \<Rightarrow> toResult marshal (fst st) (snd st))"

definition qdrant_renderFetch :: "marshaller \<Rightarrow> VectorAST \<Rightarrow> string list \<Rightarrow> error + QueryResult" where
  "qdrant_renderFetch marshal ast params =
     (case ids_loop (IDs ast) [] params of
        (ids, params') \<Rightarrow>
          toResult marshal
            [''ids'' \<mapsto> strings_json ids,
             ''with_payload'' \<mapsto> JBool (IncludeMetadata ast),
             ''with_vector'' \<mapsto> JBool (IncludeVectors ast)] params')"

definition qdrant_renderUpdate ::
  "marshaller \<Rightarrow> ranging \<Rightarrow> VectorAST \<Rightarrow> string list \<Rightarrow> error + QueryResult" where
  "qdrant_renderUpdate marshal rng ast params =
     (case ids_loop (IDs ast) [] params of
        (ids, params') \<Rightarrow>
          (let payload = range_loop (rng 0) (Map.empty, params')
           in toResult marshal
                [''points'' \<mapsto> strings_json ids, ''payload'' \<mapsto> JObj (fst payload)]
                (snd payload)))"

definition qdrant_Render ::
  "qdrant_Renderer \<Rightarrow> marshaller \<Rightarrow> ranging \<Rightarrow> VectorAST \<Rightarrow> error + QueryResult" where
  "qdrant_Render r marshal rng ast =
     (case Validate ast of
        Some err \<Rightarrow> Inl (InvalidAST err)
      | None \<Rightarrow>
          (let params = [] in
           if Operation ast = OpSearch then qdrant_renderSearch r marshal ast params
           else if Operation ast = OpUpsert then qdrant_renderUpsert marshal rng ast params
           else if Operation ast = OpDelete then qdrant_renderDelete marshal ast params
           else if Operation ast = OpFetch then qdrant_renderFetch marshal ast params
           else if Operation ast = OpUpdate then qdrant_renderUpdate marshal rng ast params
           else Inl (UnsupportedOperation (Operation ast))))"

section \<open>The Milvus renderer (\<^verbatim>\<open>pkg/milvus\<close>)\<close>

record milvus_Renderer =
  DefaultVectorField :: string

definition milvus_New :: milvus_Renderer where
  "milvus_New = \<lparr>DefaultVectorField = ''embedding''\<rparr>"

definition milvus_mapOperator :: "FilterOperator \<Rightarrow> string" where
  "milvus_mapOperator op =
     (if op = EQ then ''==''
      else if op = NE then ''!=''
      else if op = GT then ''>''
      else if op = GE then ''>=''
      else if op = LT then ''<''
      else if op = LE then ''<=''
      else if op = IN then ''in''
      else if op = NotIn then ''not in''
      else if op = Contains then ''like''
      else ''=='')"

fun strings_Join :: "string list \<Rightarrow> string \<Rightarrow> string" where
  "strings_Join [] sep = []"
| "strings_Join [x] sep = x"
| "strings_Join (x # y # ys) sep = x @ sep @ strings_Join (y # ys) sep"

text \<open>
  The Milvus filter is an expression string. A \<^verbatim>\<open>NOT\<close> group renders
  \<^verbatim>\<open>filter.Conditions[0]\<close> only, and the empty string when it has no child; a
  \<^verbatim>\<open>GeoFilter\<close>, a pointer and a \<^verbatim>\<open>nil\<close> item reach \<^verbatim>\<open>default:\<close>.
\<close>

fun milvus_renderFilter :: "FilterItem \<Rightarrow> string list \<Rightarrow> error + string \<times> string list"
  and milvus_renderFilter_loop ::
    "FilterItem list \<Rightarrow> string list \<Rightarrow> string list \<Rightarrow> error + string list \<times> string list" where
  "milvus_renderFilter (FilterCondition field operator value) params =
     Inr (FieldName field @ '' '' @ milvus_mapOperator operator @ '' :'' @ Name value,
          params @ [Name value])"
| "milvus_renderFilter (FilterGroup logic conditions) params =
     (if logic = NOT then
        (case conditions of
           c # _ \<Rightarrow>
             (case milvus_renderFilter c params of
                Inl err \<Rightarrow> Inl err
              | Inr (inner, params') \<Rightarrow> Inr (''not ('' @ inner @ '')'', params'))
         | [] \<Rightarrow> Inr ([], params))
      else
        (case milvus_renderFilter_loop conditions [] params of
           Inl err \<Rightarrow> Inl err
         | Inr (parts, params') \<Rightarrow>
             Inr (''('' @ strings_Join parts (if logic = OR then '' or '' else '' and '') @ '')'',
                  params')))"
| "milvus_renderFilter (RangeFilter field minp maxp minExclusive maxExclusive) params =
     (let st = ([], params);
          st = (case minp of
                  None \<Rightarrow> st
                | Some m \<Rightarrow>
                    (fst st @ [FieldName field @ '' '' @ (if minExclusive then ''>'' else ''>='')
                               @ '' :'' @ Name m],
                     snd st @ [Name m]));
          st = (case maxp of
                  None \<Rightarrow> st
                | Some m \<Rightarrow>
                    (fst st @ [FieldName field @ '' '' @ (if maxExclusive then ''<'' else ''<='')
                               @ '' :'' @ Name m],
                     snd st @ [Name m]))
      in Inr (''('' @ strings_Join (fst st) '' and '' @ '')'', snd st))"
| "milvus_renderFilter (GeoFilter field center radius) params =
     Inl (UnsupportedFilterType ''types.GeoFilter'')"
| "milvus_renderFilter (PointerItem pointee) params =
     Inl (UnsupportedFilterType (''*'' @ pointee))"
| "milvus_renderFilter NilItem params =
     Inl (UnsupportedFilterType ''<nil>'')"
| "milvus_renderFilter_loop [] parts params = Inr (parts, params)"
| "milvus_renderFilter_loop (c # cs) parts params =
     (case milvus_renderFilter c params of
        Inl err \<Rightarrow> Inl err
      | Inr (r, params') \<Rightarrow> milvus_renderFilter_loop cs (parts @ [r]) params')"

text \<open>The filter renderer with its expression wrapped as a document value.\<close>

definition milvus_renderFilter_json :: "FilterItem \<Rightarrow> string list \<Rightarrow> error + json \<times> string list" where
  "milvus_renderFilter_json f params =
     (case milvus_renderFilter f params of
        Inl err \<Rightarrow> Inl err
      | Inr (expr, params') \<Rightarrow> Inr (JStr expr, params'))"

text \<open>
  The slice \<^verbatim>\<open>fields\<close> of \<^verbatim>\<open>for i, f := range ast.MetadataFields { fields[i] = f.Name }\<close>.
\<close>

definition field_names :: "MetadataField list \<Rightarrow> json" where
  "field_names fs = strings_json (map FieldName fs)"

definition milvus_renderSearch ::
  "milvus_Renderer \<Rightarrow> marshaller \<Rightarrow> VectorAST \<Rightarrow> string list \<Rightarrow> error + QueryResult" where
  "milvus_renderSearch r marshal ast params =
     (let query = [''collection_name'' \<mapsto> JStr (CollectionName (Target ast))];
          vectorField =
            (if QueryEmbedding ast \<noteq> None \<and> EmbeddingName (the (QueryEmbedding ast)) \<noteq> []
             then EmbeddingName (the (QueryEmbedding ast))
             else DefaultVectorField r);
          st = (query(''anns_field'' \<mapsto> JStr vectorField), params);
          st = (case QueryVector ast of
                  None \<Rightarrow> st
                | Some v \<Rightarrow>
                    (case VecParam v of
                       Some p \<Rightarrow> emit_param ''data'' p st
                     | None \<Rightarrow> ((fst st)(''data'' \<mapsto> JArr [floats_json (VecLiteral v)]), snd st)));
          st = emit_topK ''limit'' (TopK ast) st;
          st = (if IncludeMetadata ast \<and> length (MetadataFields ast) > 0
                then ((fst st)(''output_fields'' \<mapsto> field_names (MetadataFields ast)), snd st)
                else st)
      in case emit_filter milvus_renderFilter_json ''filter'' (FilterClause ast) st of
           Inl err \<Rightarrow> Inl err
         | Inr st \<Rightarrow>
             (let st = (case Namespace ast of
                          None \<Rightarrow> st
                        | Some ns \<Rightarrow>
                            ((fst st)(''partition_names'' \<mapsto> JArr [JStr (placeholder (Name ns))]),
                             snd st @ [Name ns]))
              in toResult marshal (fst st) (snd st)))"

definition milvus_upsert_record ::
  "milvus_Renderer \<Rightarrow> (MetadataField \<times> Param) list \<Rightarrow> VectorRecord \<Rightarrow> string list \<Rightarrow>
     json \<times> string list" where
  "milvus_upsert_record r entries record params =
     (let st = (Map.empty, params);
          st = emit_param ''id'' (ID record) st;
          vectorField = DefaultVectorField r;
          st = emit_vector vectorField (Vector record) st;
          st = range_loop entries st
      in (JObj (fst st), snd st))"

definition milvus_renderUpsert ::
  "milvus_Renderer \<Rightarrow> marshaller \<Rightarrow> ranging \<Rightarrow> VectorAST \<Rightarrow> string list \<Rightarrow> error + QueryResult" where
  "milvus_renderUpsert r marshal rng ast params =
     (let query = [''collection_name'' \<mapsto> JStr (CollectionName (Target ast))]
      in case records_loop (milvus_upsert_record r) rng 0 (Vectors ast) [] params of
           (data, params') \<Rightarrow>
             (let st = (query(''data'' \<mapsto> JArr data), params');
                  st = emit_opt_param ''partition_name'' (Namespace ast) st
              in toResult marshal (fst st) (snd st)))"

text \<open>\<^verbatim>\<open>fmt.Sprintf("id in [%s]", strings.Join(idExprs, ", "))\<close>\<close>

definition milvus_id_filter :: "string list \<Rightarrow> json" where
  "milvus_id_filter idExprs = JStr (''id in ['' @ strings_Join idExprs '', '' @ '']'')"

definition milvus_renderDelete :: "marshaller \<Rightarrow> VectorAST \<Rightarrow> string list \<Rightarrow> error + QueryResult" where
  "milvus_renderDelete marshal ast params =
     (let st = ([''collection_name'' \<mapsto> JStr (CollectionName (Target ast))], params);
          r = (if length (IDs ast) > 0
               then (case ids_loop (IDs ast) [] (snd st) of
                       (idExprs, params') \<Rightarrow>
                         Inr ((fst st)(''filter'' \<mapsto> milvus_id_filter idExprs), params'))
               else if FilterClause ast \<noteq> None \<and> DeleteAll ast
               then emit_filter milvus_renderFilter_json ''filter'' (FilterClause ast) st
               else Inr st)
      in case r of
           Inl err \<Rightarrow> Inl err
         | Inr st \<Rightarrow>
             (let st = emit_opt_param ''partition_name'' (Namespace ast) st
              in toResult marshal (fst st) (snd st)))"

definition milvus_renderFetch :: "marshaller \<Rightarrow> VectorAST \<Rightarrow> string list \<Rightarrow> error + QueryResult" where
  "milvus_renderFetch marshal ast params =
     (let query = [''collection_name'' \<mapsto> JStr (CollectionName (Target ast))]
      in case ids_loop (IDs ast) [] params of
           (idExprs, params') \<Rightarrow>
             (let st = (query(''filter'' \<mapsto> milvus_id_filter idExprs), params');
                  st = (if IncludeMetadata ast \<and> length (MetadataFields ast) > 0
                        then ((fst st)(''output_fields'' \<mapsto> field_names (MetadataFields ast)), snd st)
                        else if IncludeMetadata ast
                        then ((fst st)(''output_fields'' \<mapsto> strings_json [''*'']), snd st)
                        else st);
                  st = (case Namespace ast of
                          None \<Rightarrow> st
                        | Some ns \<Rightarrow>
                            ((fst st)(''partition_names'' \<mapsto> JArr [JStr (placeholder (Name ns))]),
                             snd st @ [Name ns]))
              in toResult marshal (fst st) (snd st)))"

text \<open>
  \<^verbatim>\<open>renderUpdate\<close> builds one row for each ID and ranges over \<^verbatim>\<open>ast.Updates\<close> once
  for each of them: the \<open>i\<close>-th row uses the \<open>i\<close>-th order of the ranging.
\<close>

fun milvus_update_loop ::
  "ranging \<Rightarrow> nat \<Rightarrow> Param list \<Rightarrow> json list \<Rightarrow> string list \<Rightarrow> json list \<times> string list" where
  "milvus_update_loop rng i [] data params = (data, params)"
| "milvus_update_loop rng i (p # rest) data params =
     (let st = emit_param ''id'' p (Map.empty, params);
          st = range_loop (rng i) st
      in milvus_update_loop rng (Suc i) rest (data @ [JObj (fst st)]) (snd st))"

definition milvus_renderUpdate ::
  "marshaller \<Rightarrow> ranging \<Rightarrow> VectorAST \<Rightarrow> string list \<Rightarrow> error + QueryResult" where
  "milvus_renderUpdate marshal rng ast params =
     (let query = [''collection_name'' \<mapsto> JStr (CollectionName (Target ast))]
      in case milvus_update_loop rng 0 (IDs ast) [] params of
           (data, params') \<Rightarrow> toResult marshal (query(''data'' \<mapsto> JArr data)) params')"

definition milvus_Render ::
  "milvus_Renderer \<Rightarrow> marshaller \<Rightarrow> ranging \<Rightarrow> VectorAST \<Rightarrow> error + QueryResult" where
  "milvus_Render r marshal rng ast =
     (case Validate ast of
        Some err \<Rightarrow> Inl (InvalidAST err)
      | None \<Rightarrow>
          (let params = [] in
           if Operation ast = OpSearch then milvus_renderSearch r marshal ast params
           else if Operation ast = OpUpsert then milvus_renderUpsert r marshal rng ast params
           else if Operation ast = OpDelete then milvus_renderDelete marshal ast params
           else if Operation ast = OpFetch then milvus_renderFetch marshal ast params
           else if Operation ast = OpUpdate then milvus_renderUpdate marshal rng ast params
           else Inl (UnsupportedOperation (Operation ast))))"

section \<open>The Weaviate renderer (\<^verbatim>\<open>pkg/weaviate\<close>)\<close>

definition weaviate_mapOperator :: "FilterOperator \<Rightarrow> string" where
  "weaviate_mapOperator op =
     (if op = EQ then ''Equal''
      else if op = NE then ''NotEqual''
      else if op = GT then ''GreaterThan''
      else if op = GE then ''GreaterThanEqual''
      else if op = LT then ''LessThan''
      else if op = LE then ''LessThanEqual''
      else if op = Contains then ''ContainsAny''
      else if op = Exists then ''IsNull''
      else ''Equal'')"

definition weaviate_mapLogic :: "LogicOperator \<Rightarrow> string" where
  "weaviate_mapLogic logic =
     (if logic = AND then ''And''
      else if logic = OR then ''Or''
      else if logic = NOT then ''Not''
      else ''And'')"

text \<open>
  \<^verbatim>\<open>strings.ToUpper\<close> on the one-byte string \<^verbatim>\<open>name[:1]\<close>: an ASCII lower-case
  letter is raised, any other ASCII byte is kept, and a byte from \<^verbatim>\<open>0x80\<close> on, which
  alone is not valid UTF-8, comes back as the encoding of U+FFFD.
\<close>

definition strings_ToUpper1 :: "char \<Rightarrow> string" where
  "strings_ToUpper1 c =
     (let n = (of_char c :: nat)
      in if 97 \<le> n \<and> n \<le> 122 then [char_of (n - 32)]
         else if n < 128 then [c]
         else [char_of (239 :: nat), char_of (191 :: nat), char_of (189 :: nat)])"

fun weaviate_formatClassName :: "string \<Rightarrow> string" where
  "weaviate_formatClassName [] = []"
| "weaviate_formatClassName (c # rest) = strings_ToUpper1 c @ rest"

text \<open>One comparison clause of the Weaviate range filter.\<close>

definition weaviate_range_clause :: "MetadataField \<Rightarrow> string \<Rightarrow> Param \<Rightarrow> json" where
  "weaviate_range_clause field op p =
     JObj [''path'' \<mapsto> strings_json [FieldName field],
           ''operator'' \<mapsto> JStr op,
           ''valueNumber'' \<mapsto> JStr (placeholder (Name p))]"

text \<open>
  The type switch of \<^verbatim>\<open>renderFilter\<close> has a case for each of the four structs; a pointer
  and a \<^verbatim>\<open>nil\<close> item reach \<^verbatim>\<open>default:\<close>.
\<close>

fun weaviate_renderFilter :: "FilterItem \<Rightarrow> string list \<Rightarrow> error + json \<times> string list"
  and weaviate_renderFilter_loop ::
    "FilterItem list \<Rightarrow> json list \<Rightarrow> string list \<Rightarrow> error + json list \<times> string list" where
  "weaviate_renderFilter (FilterCondition field operator value) params =
     Inr (JObj [''path'' \<mapsto> strings_json [FieldName field],
                ''operator'' \<mapsto> JStr (weaviate_mapOperator operator),
                ''valueString'' \<mapsto> JStr (placeholder (Name value))],
          params @ [Name value])"
| "weaviate_renderFilter (FilterGroup logic conditions) params =
     (case weaviate_renderFilter_loop conditions [] params of
        Inl err \<Rightarrow> Inl err
      | Inr (operands, params') \<Rightarrow>
          Inr (JObj [''operator'' \<mapsto> JStr (weaviate_mapLogic logic),
                     ''operands'' \<mapsto> JArr operands], params'))"
| "weaviate_renderFilter (RangeFilter field minp maxp minExclusive maxExclusive) params =
     (let st = ([], params);
          st = (case minp of
                  None \<Rightarrow> st
                | Some m \<Rightarrow>
                    (fst st @ [weaviate_range_clause field
                                 (if minExclusive then ''GreaterThan'' else ''GreaterThanEqual'') m],
                     snd st @ [Name m]));
          st = (case maxp of
                  None \<Rightarrow> st
                | Some m \<Rightarrow>
                    (fst st @ [weaviate_range_clause field
                                 (if maxExclusive then ''LessThan'' else ''LessThanEqual'') m],
                     snd st @ [Name m]))
      in case fst st of
           [operand] \<Rightarrow> Inr (operand, snd st)
         | operands \<Rightarrow>
             Inr (JObj [''operator'' \<mapsto> JStr ''And'', ''operands'' \<mapsto> JArr operands], snd st))"
| "weaviate_renderFilter (GeoFilter field center radius) params =
     Inr (JObj [''path'' \<mapsto> strings_json [FieldName field],
                ''operator'' \<mapsto> JStr ''WithinGeoRange'',
                ''valueGeoRange'' \<mapsto>
                  JObj [''geoCoordinates'' \<mapsto>
                          JObj [''latitude'' \<mapsto> JStr (placeholder (Name (Lat center))),
                                ''longitude'' \<mapsto> JStr (placeholder (Name (Lon center)))],
                        ''distance'' \<mapsto> JObj [''max'' \<mapsto> JStr (placeholder (Name radius))]]],
          ((params @ [Name (Lat center)]) @ [Name (Lon center)]) @ [Name radius])"
| "weaviate_renderFilter (PointerItem pointee) params =
     Inl (UnsupportedFilterType (''*'' @ pointee))"
| "weaviate_renderFilter NilItem params =
     Inl (UnsupportedFilterType ''<nil>'')"
| "weaviate_renderFilter_loop [] operands params = Inr (operands, params)"
| "weaviate_renderFilter_loop (c # cs) operands params =
     (case weaviate_renderFilter c params of
        Inl err \<Rightarrow> Inl err
      | Inr (r, params') \<Rightarrow> weaviate_renderFilter_loop cs (operands @ [r]) params')"

definition weaviate_renderSearch :: "marshaller \<Rightarrow> VectorAST \<Rightarrow> string list \<Rightarrow> error + QueryResult" where
  "weaviate_renderSearch marshal ast params =
     (let className = weaviate_formatClassName (CollectionName (Target ast));
          query = [''class'' \<mapsto> JStr className];
          nv = (Map.empty, params);
          nv = (case QueryVector ast of None \<Rightarrow> nv | Some v \<Rightarrow> emit_vector ''vector'' v nv);
          nv = emit_opt_param ''certainty'' (MinScore ast) nv;
          nearVector =
            (if QueryEmbedding ast \<noteq> None \<and> EmbeddingName (the (QueryEmbedding ast)) \<noteq> []
             then (fst nv)(''targetVectors'' \<mapsto>
                             strings_json [EmbeddingName (the (QueryEmbedding ast))])
             else fst nv);
          st = (query(''nearVector'' \<mapsto> JObj nearVector), snd nv);
          st = emit_topK ''limit'' (TopK ast) st;
          st = (if IncludeMetadata ast \<and> length (MetadataFields ast) > 0
                then ((fst st)(''properties'' \<mapsto> field_names (MetadataFields ast)), snd st)
                else st)
      in case emit_filter weaviate_renderFilter ''where'' (FilterClause ast) st of
           Inl err \<Rightarrow> Inl err
         | Inr st \<Rightarrow>
             (let st = emit_opt_param ''tenant'' (Namespace ast) st;
                  st = (if IncludeVectors ast
                        then ((fst st)(''additional'' \<mapsto>
                                strings_json [''vector'', ''distance'', ''certainty'']), snd st)
                        else ((fst st)(''additional'' \<mapsto>
                                strings_json [''distance'', ''certainty'']), snd st))
              in toResult marshal (fst st) (snd st)))"

definition weaviate_upsert_record ::
  "string \<Rightarrow> (MetadataField \<times> Param) list \<Rightarrow> VectorRecord \<Rightarrow> string list \<Rightarrow> json \<times> string list" where
  "weaviate_upsert_record className entries record params =
     (let st = ([''class'' \<mapsto> JStr className], params);
          st = emit_param ''id'' (ID record) st;
          st = emit_vector ''vector'' (Vector record) st;
          st = (if Metadata record \<noteq> Map.empty
                then (let md = range_loop entries (Map.empty, snd st)
                      in ((fst st)(''properties'' \<mapsto> JObj (fst md)), snd md))
                else st)
      in (JObj (fst st), snd st))"

definition weaviate_renderUpsert ::
  "marshaller \<Rightarrow> ranging \<Rightarrow> VectorAST \<Rightarrow> string list \<Rightarrow> error + QueryResult" where
  "weaviate_renderUpsert marshal rng ast params =
     (let className = weaviate_formatClassName (CollectionName (Target ast))
      in case records_loop (weaviate_upsert_record className) rng 0 (Vectors ast) [] params of
           (objects, params') \<Rightarrow>
             (let st = ([''objects'' \<mapsto> JArr objects], params');
                  st = emit_opt_param ''tenant'' (Namespace ast) st
              in toResult marshal (fst st) (snd st)))"

definition weaviate_renderDelete :: "marshaller \<Rightarrow> VectorAST \<Rightarrow> string list \<Rightarrow> error + QueryResult" where
  "weaviate_renderDelete marshal ast params =
     (let className = weaviate_formatClassName (CollectionName (Target ast));
          st = ([''class'' \<mapsto> JStr className], params);
          r = (if length (IDs ast) > 0
               then (case ids_loop (IDs ast) [] (snd st) of
                       (ids, params') \<Rightarrow> Inr ((fst st)(''ids'' \<mapsto> strings_json ids), params'))
               else if FilterClause ast \<noteq> None \<and> DeleteAll ast
               then emit_filter weaviate_renderFilter ''where'' (FilterClause ast) st
               else Inr st)
      in case r of
           Inl err \<Rightarrow> Inl err
         | Inr st \<Rightarrow>
             (let st = emit_opt_param ''tenant'' (Namespace ast) st
              in toResult marshal (fst st) (snd st)))"

definition weaviate_renderFetch :: "marshaller \<Rightarrow> VectorAST \<Rightarrow> string list \<Rightarrow> error + QueryResult" where
  "weaviate_renderFetch marshal ast params =
     (let className = weaviate_formatClassName (CollectionName (Target ast))
      in case ids_loop (IDs ast) [] params of
           (ids, params') \<Rightarrow>
             (let st = ([''class'' \<mapsto> JStr className, ''ids'' \<mapsto> strings_json ids], params');
                  st = (if IncludeMetadata ast \<and> length (MetadataFields ast) > 0
                        then ((fst st)(''properties'' \<mapsto> field_names (MetadataFields ast)), snd st)
                        else st);
                  additional = (if IncludeVectors ast then [''vector''] else []);
                  st = (if length additional > 0
                        then ((fst st)(''additional'' \<mapsto> strings_json additional), snd st)
                        else st);
                  st = emit_opt_param ''tenant'' (Namespace ast) st
              in toResult marshal (fst st) (snd st)))"

text \<open>
  \<^verbatim>\<open>renderUpdate\<close> (``Weaviate updates one object at a time'') uses \<^verbatim>\<open>ast.IDs[0]\<close>
  only and ranges over \<^verbatim>\<open>ast.Updates\<close> without a length check.
\<close>

definition weaviate_renderUpdate ::
  "marshaller \<Rightarrow> ranging \<Rightarrow> VectorAST \<Rightarrow> string list \<Rightarrow> error + QueryResult" where
  "weaviate_renderUpdate marshal rng ast params =
     (let className = weaviate_formatClassName (CollectionName (Target ast))
      in case IDs ast of
           [] \<Rightarrow> Inl UpdateRequiresID
         | id0 # _ \<Rightarrow>
             (let params = params @ [Name id0];
                  properties = range_loop (rng 0) (Map.empty, params);
                  st = ([''class'' \<mapsto> JStr className,
                         ''id'' \<mapsto> JStr (placeholder (Name id0)),
                         ''properties'' \<mapsto> JObj (fst properties)], snd properties);
                  st = emit_opt_param ''tenant'' (Namespace ast) st
              in toResult marshal (fst st) (snd st)))"

definition weaviate_Render :: "marshaller \<Rightarrow> ranging \<Rightarrow> VectorAST \<Rightarrow> error + QueryResult" where
  "weaviate_Render marshal rng ast =
     (case Validate ast of
        Some err \<Rightarrow> Inl (InvalidAST err)
      | None \<Rightarrow>
          (let params = [] in
           if Operation ast = OpSearch then weaviate_renderSearch marshal ast params
           else if Operation ast = OpUpsert then weaviate_renderUpsert marshal rng ast params
           else if Operation ast = OpDelete then weaviate_renderDelete marshal ast params
           else if Operation ast = OpFetch then weaviate_renderFetch marshal ast params
           else if Operation ast = OpUpdate then weaviate_renderUpdate marshal rng ast params
           else Inl (UnsupportedOperation (Operation ast))))"

section \<open>The \<^verbatim>\<open>Renderer\<close> interface\<close>

text \<open>
  The interface \<^verbatim>\<open>vectql.Renderer\<close> has these four implementations; \<open>Render\<close> is the
  dynamic dispatch of its method \<^verbatim>\<open>Render\<close>, and \<open>renderFilter\<close> that of the filter
  walk each implementation has.
\<close>

datatype Renderer =
    Pinecone
  | Qdrant qdrant_Renderer
  | Milvus milvus_Renderer
  | Weaviate

fun Render :: "Renderer \<Rightarrow> marshaller \<Rightarrow> ranging \<Rightarrow> VectorAST \<Rightarrow> error + QueryResult" where
  "Render Pinecone marshal rng ast = pinecone_Render marshal rng ast"
| "Render (Qdrant r) marshal rng ast = qdrant_Render r marshal rng ast"
| "Render (Milvus r) marshal rng ast = milvus_Render r marshal rng ast"
| "Render Weaviate marshal rng ast = weaviate_Render marshal rng ast"

fun renderFilter :: "Renderer \<Rightarrow> FilterItem \<Rightarrow> string list \<Rightarrow> error + json \<times> string list" where
  "renderFilter Pinecone f params = pinecone_renderFilter f params"
| "renderFilter (Qdrant r) f params = qdrant_renderFilter f params"
| "renderFilter (Milvus r) f params = milvus_renderFilter_json f params"
| "renderFilter Weaviate f params = weaviate_renderFilter f params"

section \<open>Notions used to state the properties\<close>

text \<open>
  The nesting depth of a filter tree: the number of groups around its most deeply nested
  node. Entering the children of a \<^verbatim>\<open>FilterGroup\<close> adds one level; a condition, a
  range or a geo leaf adds none, and neither does a group without children, which has no
  node below it. A \<^verbatim>\<open>nil\<close> item and a pointer are leaves as well.
\<close>

fun filter_depth :: "FilterItem \<Rightarrow> nat" where
  "filter_depth (FilterGroup logic conditions) =
     (if conditions = [] then 0 else Suc (foldr max (map filter_depth conditions) 0))"
| "filter_depth _ = 0"

text \<open>
  The names of the parameters of a filter tree, in the order of a left-to-right walk. A
  \<^verbatim>\<open>nil\<close> item has none, and what is behind a pointer is not part of the tree.
\<close>

fun filter_params :: "FilterItem \<Rightarrow> string list" where
  "filter_params (FilterCondition field operator value) = [Name value]"
| "filter_params (FilterGroup logic conditions) = concat (map filter_params conditions)"
| "filter_params (RangeFilter field minp maxp minExclusive maxExclusive) =
     (case minp of None \<Rightarrow> [] | Some m \<Rightarrow> [Name m]) @ (case maxp of None \<Rightarrow> [] | Some m \<Rightarrow> [Name m])"
| "filter_params (GeoFilter field center radius) =
     [Name (Lat center), Name (Lon center), Name radius]"
| "filter_params (PointerItem pointee) = []"
| "filter_params NilItem = []"



text \<open>
  A filter tree in which every \<^verbatim>\<open>NOT\<close> group has at most one child, as the
  constructor \<^verbatim>\<open>Not\<close> of \<^verbatim>\<open>expressions.go\<close> builds them.
\<close>

fun not_unary :: "FilterItem \<Rightarrow> bool" where
  "not_unary (FilterGroup logic conditions) =
     ((logic = NOT \<longrightarrow> length conditions \<le> 1) \<and> list_all not_unary conditions)"
| "not_unary _ = True"

definition vector_params :: "VectorValue \<Rightarrow> string list" where
  "vector_params v = (case VecParam v of None \<Rightarrow> [] | Some p \<Rightarrow> [Name p])"

definition sparse_params :: "VectorRecord \<Rightarrow> string list" where
  "sparse_params record =
     (case SparseVector record of
        None \<Rightarrow> []
      | Some sv \<Rightarrow> (case SparseParam sv of None \<Rightarrow> [] | Some p \<Rightarrow> [Name p]))"

definition is_Milvus :: "Renderer \<Rightarrow> bool" where
  "is_Milvus r = (case r of Milvus _ \<Rightarrow> True | _ \<Rightarrow> False)"


text \<open>The constructors \<^verbatim>\<open>Exists\<close> and \<^verbatim>\<open>NotExists\<close> of \<^verbatim>\<open>expressions.go\<close>: they
  leave \<^verbatim>\<open>Value\<close> at the zero \<^verbatim>\<open>Param\<close>.\<close>

definition zero_Param :: Param where
  "zero_Param = \<lparr>Name = []\<rparr>"

definition vectql_Exists :: "MetadataField \<Rightarrow> FilterItem" where
  "vectql_Exists field = FilterCondition field Exists zero_Param"

definition vectql_NotExists :: "MetadataField \<Rightarrow> FilterItem" where
  "vectql_NotExists field = FilterCondition field NotExists zero_Param"

text \<open>The constructors \<^verbatim>\<open>And\<close>, \<^verbatim>\<open>Eq\<close> and \<^verbatim>\<open>Geo\<close> of \<^verbatim>\<open>expressions.go\<close>.\<close>

definition vectql_And :: "FilterItem list \<Rightarrow> FilterItem" where
  "vectql_And conditions = FilterGroup AND conditions"

definition vectql_Eq :: "MetadataField \<Rightarrow> Param \<Rightarrow> FilterItem" where
  "vectql_Eq field value = FilterCondition field EQ value"

definition vectql_Geo :: "MetadataField \<Rightarrow> Param \<Rightarrow> Param \<Rightarrow> Param \<Rightarrow> FilterItem" where
  "vectql_Geo field lat lon radius = GeoFilter field \<lparr>Lat = lat, Lon = lon\<rparr> radius"

subsection \<open>Concrete inputs\<close>

text \<open>
  The zero value \<^verbatim>\<open>types.VectorAST{}\<close>, from which the examples set fields as a Go
  composite literal does.
\<close>

definition zero_AST :: VectorAST where
  "zero_AST = \<lparr>Operation = [], Target = \<lparr>CollectionName = []\<rparr>, QueryVector = None,
     QueryEmbedding = None, TopK = None, MinScore = None, IncludeVectors = False,
     IncludeMetadata = False, FilterClause = None, MetadataFields = [], Vectors = [],
     Updates = Map.empty, IDs = [], DeleteAll = False, Namespace = None\<rparr>"

definition products :: Collection where
  "products = \<lparr>CollectionName = ''products''\<rparr>"

definition category :: MetadataField where
  "category = \<lparr>FieldName = ''category'', FieldCollection = []\<rparr>"

definition price :: MetadataField where
  "price = \<lparr>FieldName = ''price'', FieldCollection = []\<rparr>"

definition location :: MetadataField where
  "location = \<lparr>FieldName = ''location'', FieldCollection = []\<rparr>"

definition P :: "string \<Rightarrow> Param" where
  "P name = \<lparr>Name = name\<rparr>"

text \<open>
  In most closed examples the encoder is one that accepts every document and returns a
  fixed text, and the text plays no part in what they state.
\<close>

definition accepting_marshal :: marshaller where
  "accepting_marshal doc = Some ''{...}''"


definition no_entries :: ranging where
  "no_entries i = []"

text \<open>Six groups around a condition: the condition sits at nesting depth 6.\<close>

definition deep6 :: FilterItem where
  "deep6 = vectql_And [vectql_And [vectql_And [vectql_And [vectql_And [vectql_And
             [vectql_Eq category (P ''cat'')]]]]]]"

definition delete_deep6 :: VectorAST where
  "delete_deep6 = zero_AST\<lparr>Operation := OpDelete, Target := products,
     FilterClause := Some deep6, DeleteAll := True\<rparr>"

definition search_query :: VectorAST where
  "search_query = zero_AST\<lparr>Operation := OpSearch, Target := products,
     QueryVector := Some \<lparr>VecLiteral = None, VecParam = Some (P ''query_vec'')\<rparr>,
     TopK := Some \<lparr>Static = Some 10, PageParam = None\<rparr>\<rparr>"

definition search_deep6 :: VectorAST where
  "search_deep6 = search_query\<lparr>FilterClause := Some deep6\<rparr>"

definition search_geo :: VectorAST where
  "search_geo = search_query\<lparr>FilterClause :=
     Some (vectql_Geo location (P ''lat'') (P ''lon'') (P ''radius''))\<rparr>"

definition delete_by_filter :: VectorAST where
  "delete_by_filter = zero_AST\<lparr>Operation := OpDelete, Target := products,
     FilterClause := Some (vectql_Eq category (P ''cat'')), DeleteAll := True\<rparr>"

definition delete_by_geo :: VectorAST where
  "delete_by_geo = zero_AST\<lparr>Operation := OpDelete, Target := products,
     FilterClause := Some (vectql_Geo location (P ''lat'') (P ''lon'') (P ''radius'')),
     DeleteAll := True\<rparr>"

definition delete_by_ids :: VectorAST where
  "delete_by_ids = zero_AST\<lparr>Operation := OpDelete, Target := products,
     IDs := [P ''id1'', P ''id2'']\<rparr>"

definition delete_unflagged :: VectorAST where
  "delete_unflagged = zero_AST\<lparr>Operation := OpDelete, Target := products,
     FilterClause := Some (vectql_Eq category (P ''cat'')), IDs := [P ''id1'']\<rparr>"

definition delete_ids_and_filter :: VectorAST where
  "delete_ids_and_filter = delete_by_filter\<lparr>IDs := [P ''id1'']\<rparr>"

text \<open>A record with two metadata entries and one with a sparse vector parameter.\<close>

definition two_entries :: "MetadataField \<rightharpoonup> Param" where
  "two_entries = [category \<mapsto> P ''cat'', price \<mapsto> P ''price'']"

definition upsert_two_entries :: VectorAST where
  "upsert_two_entries = zero_AST\<lparr>Operation := OpUpsert, Target := products,
     Vectors := [\<lparr>ID = P ''id1'',
                  Vector = \<lparr>VecLiteral = None, VecParam = Some (P ''vec1'')\<rparr>,
                  Metadata = two_entries, SparseVector = None\<rparr>]\<rparr>"

definition category_first :: ranging where
  "category_first i = [(category, P ''cat''), (price, P ''price'')]"

definition price_first :: ranging where
  "price_first i = [(price, P ''price''), (category, P ''cat'')]"

definition upsert_sparse :: VectorAST where
  "upsert_sparse = zero_AST\<lparr>Operation := OpUpsert, Target := products,
     Vectors := [\<lparr>ID = P ''id1'',
                  Vector = \<lparr>VecLiteral = None, VecParam = Some (P ''vec1'')\<rparr>,
                  Metadata = Map.empty,
                  SparseVector = Some \<lparr>SparseIndices = None, SparseValues = None,
                                         SparseParam = Some (P ''sv'')\<rparr>\<rparr>]\<rparr>"

definition fetch_by_ids :: VectorAST where
  "fetch_by_ids = zero_AST\<lparr>Operation := OpFetch, Target := products,
     IDs := [P ''id1'', P ''id2'']\<rparr>"

definition fetch_deep6 :: VectorAST where
  "fetch_deep6 = fetch_by_ids\<lparr>FilterClause := Some deep6\<rparr>"

definition update_two_entries :: VectorAST where
  "update_two_entries = zero_AST\<lparr>Operation := OpUpdate, Target := products,
     IDs := [P ''id1'', P ''id2''], Updates := two_entries\<rparr>"

definition search_filtered :: VectorAST where
  "search_filtered = search_query\<lparr>FilterClause :=
     Some (vectql_And [vectql_Eq category (P ''cat''),
                       vectql_Geo location (P ''lat'') (P ''lon'') (P ''radius'')])\<rparr>"

text \<open>The filter \<^verbatim>\<open>And(nil)\<close>: a group whose one child is \<^verbatim>\<open>nil\<close>.\<close>

definition search_nil_item :: VectorAST where
  "search_nil_item = search_query\<lparr>FilterClause := Some (vectql_And [NilItem])\<rparr>"

text \<open>A \<^verbatim>\<open>NOT\<close> group with two children, which the type \<^verbatim>\<open>FilterGroup\<close> admits.\<close>

definition search_not_binary :: VectorAST where
  "search_not_binary = search_query\<lparr>FilterClause :=
     Some (FilterGroup NOT [vectql_Eq category (P ''cat''), vectql_Eq price (P ''max_price'')])\<rparr>"

subsection \<open>The parameter names a block appends\<close>

definition opt_param :: "Param option \<Rightarrow> string list" where
  "opt_param p = (case p of None \<Rightarrow> [] | Some q \<Rightarrow> [Name q])"

definition topK_params :: "PaginationValue option \<Rightarrow> string list" where
  "topK_params topK =
     (case topK of
        None \<Rightarrow> []
      | Some t \<Rightarrow> (case Static t of Some s \<Rightarrow> [] | None \<Rightarrow> opt_param (PageParam t)))"

definition clause_params :: "FilterItem option \<Rightarrow> string list" where
  "clause_params fc = (case fc of None \<Rightarrow> [] | Some f \<Rightarrow> filter_params f)"

definition record_params :: "VectorRecord \<Rightarrow> string set" where
  "record_params r = insert (Name (ID r)) (set (vector_params (Vector r)))"

section \<open>Properties\<close>

lemmas Operation_defs = OpSearch_def OpUpsert_def OpDelete_def OpFetch_def OpUpdate_def

lemmas Max_defs = MaxFilterDepth_def MaxBatchSize_def MaxTopK_def MaxMetadataFields_def
  MaxIDsPerFetch_def

lemmas FilterOperator_defs = EQ_def NE_def GT_def GE_def LT_def LE_def IN_def NotIn_def
  Contains_def StartsWith_def EndsWith_def Matches_def Exists_def NotExists_def
  ArrayContains_def ArrayContainsAny_def ArrayContainsAll_def

lemmas LogicOperator_defs = AND_def OR_def NOT_def

lemmas validate_defs = Validate_def validateSearch_def validateUpsert_def validateDelete_def
  validateFetch_def validateUpdate_def

lemmas block_defs = toResult_def placeholder_def floats_json_def ints_json_def emit_param_def
  emit_opt_param_def emit_topK_def emit_vector_def strings_json_def emit_filter_def
  field_names_def

lemmas pinecone_defs = pinecone_Render_def pinecone_renderSearch_def pinecone_renderUpsert_def
  pinecone_renderDelete_def pinecone_renderFetch_def pinecone_renderUpdate_def
  pinecone_upsert_record_def pinecone_mapOperator_def pinecone_mapLogic_def

lemmas qdrant_defs = qdrant_Render_def qdrant_renderSearch_def qdrant_renderUpsert_def
  qdrant_renderDelete_def qdrant_renderFetch_def qdrant_renderUpdate_def
  qdrant_upsert_record_def qdrant_mapConditionType_def qdrant_mapLogic_def qdrant_New_def
  condMust_def condMustNot_def condShould_def

lemmas milvus_defs = milvus_Render_def milvus_renderSearch_def milvus_renderUpsert_def
  milvus_renderDelete_def milvus_renderFetch_def milvus_renderUpdate_def
  milvus_upsert_record_def milvus_mapOperator_def milvus_New_def milvus_renderFilter_json_def
  milvus_id_filter_def

lemmas weaviate_defs = weaviate_Render_def weaviate_renderSearch_def weaviate_renderUpsert_def
  weaviate_renderDelete_def weaviate_renderFetch_def weaviate_renderUpdate_def
  weaviate_upsert_record_def weaviate_mapOperator_def weaviate_mapLogic_def
  weaviate_range_clause_def

lemmas example_defs = zero_AST_def products_def category_def price_def location_def P_def
  accepting_marshal_def no_entries_def deep6_def delete_deep6_def search_query_def
  search_deep6_def search_geo_def delete_by_filter_def delete_by_ids_def delete_unflagged_def
  delete_by_geo_def search_nil_item_def
  delete_ids_and_filter_def two_entries_def upsert_two_entries_def category_first_def
  price_first_def upsert_sparse_def vectql_And_def vectql_Eq_def vectql_Geo_def
  fetch_by_ids_def fetch_deep6_def update_two_entries_def search_filtered_def
  search_not_binary_def

lemmas eval_defs = example_defs block_defs validate_defs Operation_defs Max_defs
  FilterOperator_defs LogicOperator_defs

subsection \<open>What the blocks append to the accumulator\<close>

lemma ids_loop_eq:
  "ids_loop ids acc ps = (acc @ map (\<lambda>i. placeholder (Name i)) ids, ps @ map Name ids)"
  by (induction ids arbitrary: acc ps) simp_all

lemma snd_emit_param: "snd (emit_param key p st) = snd st @ [Name p]"
  by (simp add: emit_param_def split: prod.splits)

lemma snd_emit_opt_param: "snd (emit_opt_param key p st) = snd st @ opt_param p"
  by (simp add: emit_opt_param_def opt_param_def snd_emit_param split: option.splits)

lemma snd_emit_topK: "snd (emit_topK key t st) = snd st @ topK_params t"
  by (simp add: emit_topK_def topK_params_def snd_emit_opt_param split: option.splits prod.splits)

lemma snd_emit_vector: "snd (emit_vector key v st) = snd st @ vector_params v"
  by (simp add: emit_vector_def vector_params_def snd_emit_param split: option.splits prod.splits)

lemma snd_range_loop: "snd (range_loop entries st) = snd st @ map (\<lambda>e. Name (snd e)) entries"
  by (induction entries st rule: range_loop.induct) (simp_all add: snd_emit_param)

lemmas snd_blocks = snd_emit_param snd_emit_opt_param snd_emit_topK snd_emit_vector snd_range_loop

lemma toResult_params: "toResult marshal query ps = Inr res \<Longrightarrow> RequiredParams res = ps"
  by (auto simp add: toResult_def split: option.splits)

subsection \<open>The filter walks\<close>

lemma pinecone_filter_params:
  "pinecone_renderFilter f ps = Inr (d, ps') \<Longrightarrow> ps' = ps @ filter_params f"
  "pinecone_renderFilter_loop cs acc ps = Inr (ds, ps') \<Longrightarrow>
     ps' = ps @ concat (map filter_params cs)"
  by (induction f ps and cs acc ps arbitrary: d ps' and ds ps'
      rule: pinecone_renderFilter_pinecone_renderFilter_loop.induct)
    (auto simp add: snd_emit_param Let_def split: sum.splits option.splits prod.splits)

lemma qdrant_filter_params:
  "qdrant_renderFilter f ps = Inr (d, ps') \<Longrightarrow> ps' = ps @ filter_params f"
  "qdrant_renderFilter_loop cs acc ps = Inr (ds, ps') \<Longrightarrow>
     ps' = ps @ concat (map filter_params cs)"
  by (induction f ps and cs acc ps arbitrary: d ps' and ds ps'
      rule: qdrant_renderFilter_qdrant_renderFilter_loop.induct)
    (auto simp add: snd_emit_param Let_def split: sum.splits option.splits prod.splits)

lemma weaviate_filter_params:
  "weaviate_renderFilter f ps = Inr (d, ps') \<Longrightarrow> ps' = ps @ filter_params f"
  "weaviate_renderFilter_loop cs acc ps = Inr (ds, ps') \<Longrightarrow>
     ps' = ps @ concat (map filter_params cs)"
  by (induction f ps and cs acc ps arbitrary: d ps' and ds ps'
      rule: weaviate_renderFilter_weaviate_renderFilter_loop.induct)
    (auto simp add: snd_emit_param Let_def split: sum.splits option.splits prod.splits list.splits)





lemma milvus_filter_params:
  "not_unary f \<Longrightarrow> milvus_renderFilter f ps = Inr (d, ps') \<Longrightarrow> ps' = ps @ filter_params f"
  "list_all not_unary cs \<Longrightarrow> milvus_renderFilter_loop cs acc ps = Inr (ds, ps') \<Longrightarrow>
     ps' = ps @ concat (map filter_params cs)"
proof (induction f ps and cs acc ps arbitrary: d ps' and ds ps'
    rule: milvus_renderFilter_milvus_renderFilter_loop.induct)
  case (2 logic conditions params)
  show ?case
  proof (cases "logic = NOT")
    case True
    show ?thesis
    proof (cases conditions)
      case Nil
      with True 2(4) show ?thesis by simp
    next
      case (Cons c rest)
      with 2(3) True have rest: "rest = []" and c: "not_unary c" by simp_all
      from 2(4) True Cons obtain inner where "milvus_renderFilter c params = Inr (inner, ps')"
        by (auto split: sum.splits)
      from 2(1) [OF True Cons c this] Cons rest show ?thesis by simp
    qed
  next
    case False
    from 2(3) have cs: "list_all not_unary conditions" by simp
    from 2(4) False obtain parts where "milvus_renderFilter_loop conditions [] params = Inr (parts, ps')"
      by (auto split: sum.splits)
    from 2(2) [OF False cs this] show ?thesis by simp
  qed
qed (auto simp add: Let_def split: sum.splits option.splits prod.splits)

lemma milvus_filter_appends:
  "milvus_renderFilter f ps = Inr (d, ps') \<Longrightarrow> \<exists>fp. ps' = ps @ fp"
  "milvus_renderFilter_loop cs acc ps = Inr (ds, ps') \<Longrightarrow> \<exists>fp. ps' = ps @ fp"
proof (induction f ps and cs acc ps arbitrary: d ps' and ds ps'
    rule: milvus_renderFilter_milvus_renderFilter_loop.induct)
  case (2 logic conditions params)
  show ?case
  proof (cases "logic = NOT")
    case True
    show ?thesis
    proof (cases conditions)
      case Nil
      with True 2(3) show ?thesis by simp
    next
      case (Cons c rest)
      from 2(3) True Cons obtain inner where "milvus_renderFilter c params = Inr (inner, ps')"
        by (auto split: sum.splits)
      from 2(1) [OF True Cons this] show ?thesis .
    qed
  next
    case False
    from 2(3) False obtain parts where "milvus_renderFilter_loop conditions [] params = Inr (parts, ps')"
      by (auto split: sum.splits)
    from 2(2) [OF False this] show ?thesis .
  qed
next
  case (8 c cs parts params)
  from 8(3) obtain r ps1 where c: "milvus_renderFilter c params = Inr (r, ps1)"
    and rest: "milvus_renderFilter_loop cs (parts @ [r]) ps1 = Inr (ds, ps')"
    by (auto split: sum.splits)
  from 8(1) [OF c] obtain fp1 where "ps1 = params @ fp1" by blast
  moreover from 8(2) [OF c refl rest] obtain fp2 where "ps' = ps1 @ fp2" by blast
  ultimately show ?case by simp
qed (auto simp add: Let_def split: sum.splits option.splits prod.splits)





lemma milvus_filter_json_params:
  "not_unary f \<Longrightarrow> milvus_renderFilter_json f ps = Inr (d, ps') \<Longrightarrow> ps' = ps @ filter_params f"
  using milvus_filter_params(1) [of f ps]
  by (auto simp add: milvus_renderFilter_json_def split: sum.splits)





lemma emit_filter_params:
  assumes "emit_filter rf key fc st = Inr st'"
    and "\<And>f d ps'. fc = Some f \<Longrightarrow> rf f (snd st) = Inr (d, ps') \<Longrightarrow> ps' = snd st @ filter_params f"
  shows "snd st' = snd st @ clause_params fc"
  using assms by (cases fc) (auto simp add: emit_filter_def clause_params_def split: sum.splits)

lemma pinecone_emit_filter_params:
  "emit_filter pinecone_renderFilter key fc st = Inr st' \<Longrightarrow> snd st' = snd st @ clause_params fc"
  by (rule emit_filter_params) (auto dest: pinecone_filter_params(1))

lemma qdrant_emit_filter_params:
  "emit_filter qdrant_renderFilter key fc st = Inr st' \<Longrightarrow> snd st' = snd st @ clause_params fc"
  by (rule emit_filter_params) (auto dest: qdrant_filter_params(1))

lemma weaviate_emit_filter_params:
  "emit_filter weaviate_renderFilter key fc st = Inr st' \<Longrightarrow> snd st' = snd st @ clause_params fc"
  by (rule emit_filter_params) (auto dest: weaviate_filter_params(1))

lemma milvus_emit_filter_params:
  "emit_filter milvus_renderFilter_json key fc st = Inr st' \<Longrightarrow> \<forall>f. fc = Some f \<longrightarrow> not_unary f \<Longrightarrow>
   snd st' = snd st @ clause_params fc"
  by (rule emit_filter_params) (auto dest: milvus_filter_json_params)

lemma milvus_emit_filter_appends:
  "emit_filter milvus_renderFilter_json key fc st = Inr st' \<Longrightarrow> \<exists>fp. snd st' = snd st @ fp"
  by (cases fc)
    (auto simp add: emit_filter_def milvus_renderFilter_json_def split: sum.splits
      dest: milvus_filter_appends(1))

subsection \<open>Validation\<close>


lemma validated_update_IDs:
  "Validate ast = None \<Longrightarrow> Operation ast = OpUpdate \<Longrightarrow> IDs ast \<noteq> []"
  by (auto simp add: validate_defs Operation_defs split: if_splits)

lemma valid_delete_flag:
  "Validate ast = None \<Longrightarrow> Operation ast = OpDelete \<Longrightarrow> FilterClause ast = Some f \<Longrightarrow> DeleteAll ast"
  by (auto simp add: validate_defs Operation_defs split: if_splits)

lemma Render_valid: "Render r marshal rng ast = Inr res \<Longrightarrow> Validate ast = None"
  by (cases r; cases "Validate ast")
    (simp_all add: pinecone_Render_def qdrant_Render_def milvus_Render_def weaviate_Render_def)

lemma Render_invalid:
  "Validate ast = Some err \<Longrightarrow> Render r marshal rng ast = Inl (InvalidAST err)"
  by (cases r) (simp_all add: pinecone_Render_def qdrant_Render_def milvus_Render_def
      weaviate_Render_def)

lemma validateFilterDepth_from:
  "depth \<le> 5 \<Longrightarrow> validateFilterDepth f depth =
     (if 5 < depth + int (filter_depth f) then Some (FilterTooDeep 6 5) else None)"
  "depth \<le> 6 \<Longrightarrow> validateFilterDepth_loop cs depth =
     (if cs \<noteq> [] \<and> 5 < depth + int (foldr max (map filter_depth cs) 0)
      then Some (FilterTooDeep 6 5) else None)"
proof (induction f depth and cs depth rule: validateFilterDepth_validateFilterDepth_loop.induct)
  case (1 f depth)
  then show ?case
    by (cases f) (auto simp add: MaxFilterDepth_def)
next
  case (2 depth)
  then show ?case by simp
next
  case (3 c cs depth)
  show ?case
  proof (cases "depth = 6")
    case True
    then show ?thesis by (simp add: MaxFilterDepth_def)
  next
    case False
    with 3 have d: "depth \<le> 5" by simp
    from 3 d show ?thesis
      by (cases cs) (auto simp add: MaxFilterDepth_def max_def split: option.splits if_splits)
  qed
qed

subsection \<open>Rendering a validated tree reaches the encoder\<close>
































subsection \<open>The required parameters of each emitter\<close>

lemma pinecone_search_params:
  assumes "pinecone_renderSearch marshal ast ps = Inr res"
  shows "RequiredParams res = ps @ topK_params (TopK ast)
           @ (case QueryVector ast of None \<Rightarrow> [] | Some v \<Rightarrow> vector_params v)
           @ clause_params (FilterClause ast) @ opt_param (Namespace ast)"
  using assms
  by (auto simp add: pinecone_renderSearch_def Let_def snd_blocks
      dest!: toResult_params pinecone_emit_filter_params split: sum.splits option.splits)

lemma qdrant_search_params:
  assumes "qdrant_renderSearch r marshal ast ps = Inr res"
  shows "RequiredParams res = ps
           @ (case QueryVector ast of None \<Rightarrow> [] | Some v \<Rightarrow> vector_params v)
           @ topK_params (TopK ast) @ opt_param (MinScore ast)
           @ clause_params (FilterClause ast)"
  using assms
  by (auto simp add: qdrant_renderSearch_def Let_def snd_blocks
      dest!: toResult_params qdrant_emit_filter_params split: sum.splits option.splits)

lemma milvus_search_params:
  assumes "milvus_renderSearch r marshal ast ps = Inr res"
    and "\<forall>f. FilterClause ast = Some f \<longrightarrow> not_unary f"
  shows "RequiredParams res = ps
           @ (case QueryVector ast of None \<Rightarrow> [] | Some v \<Rightarrow> vector_params v)
           @ topK_params (TopK ast) @ clause_params (FilterClause ast)
           @ opt_param (Namespace ast)"
  using assms
  by (auto simp add: milvus_renderSearch_def Let_def snd_blocks vector_params_def opt_param_def
      dest!: toResult_params milvus_emit_filter_params split: sum.splits option.splits)

lemma milvus_search_vector:
  assumes "milvus_renderSearch r marshal ast ps = Inr res" "QueryVector ast = Some v"
  shows "set (vector_params v) \<subseteq> set (RequiredParams res)"
  using assms
  by (auto simp add: milvus_renderSearch_def Let_def snd_blocks vector_params_def
      dest!: toResult_params milvus_emit_filter_appends split: sum.splits option.splits)

lemma weaviate_search_params:
  assumes "weaviate_renderSearch marshal ast ps = Inr res"
  shows "RequiredParams res = ps
           @ (case QueryVector ast of None \<Rightarrow> [] | Some v \<Rightarrow> vector_params v)
           @ opt_param (MinScore ast) @ topK_params (TopK ast)
           @ clause_params (FilterClause ast) @ opt_param (Namespace ast)"
  using assms
  by (auto simp add: weaviate_renderSearch_def Let_def snd_blocks
      dest!: toResult_params weaviate_emit_filter_params split: sum.splits option.splits if_splits)

lemma pinecone_delete_params:
  assumes "pinecone_renderDelete marshal ast ps = Inr res"
  shows "RequiredParams res = ps
           @ (if IDs ast \<noteq> [] then map Name (IDs ast)
              else if DeleteAll ast then clause_params (FilterClause ast) else [])
           @ opt_param (Namespace ast)"
  using assms
  by (auto simp add: pinecone_renderDelete_def Let_def snd_blocks ids_loop_eq clause_params_def
      dest!: toResult_params pinecone_emit_filter_params split: sum.splits if_splits)

lemma qdrant_delete_params:
  assumes "qdrant_renderDelete marshal ast ps = Inr res"
  shows "RequiredParams res = ps
           @ (if IDs ast \<noteq> [] then map Name (IDs ast)
              else if DeleteAll ast then clause_params (FilterClause ast) else [])"
  using assms
  by (auto simp add: qdrant_renderDelete_def Let_def snd_blocks ids_loop_eq clause_params_def
      dest!: toResult_params qdrant_emit_filter_params split: sum.splits if_splits)

lemma milvus_delete_params:
  assumes "milvus_renderDelete marshal ast ps = Inr res"
    and "\<forall>f. FilterClause ast = Some f \<longrightarrow> not_unary f"
  shows "RequiredParams res = ps
           @ (if IDs ast \<noteq> [] then map Name (IDs ast)
              else if DeleteAll ast then clause_params (FilterClause ast) else [])
           @ opt_param (Namespace ast)"
  using assms
  by (auto simp add: milvus_renderDelete_def Let_def snd_blocks ids_loop_eq clause_params_def
      dest!: toResult_params milvus_emit_filter_params split: sum.splits if_splits)

lemma milvus_delete_ids_params:
  assumes "milvus_renderDelete marshal ast ps = Inr res" and "IDs ast \<noteq> []"
  shows "RequiredParams res = ps @ map Name (IDs ast) @ opt_param (Namespace ast)"
  using assms
  by (auto simp add: milvus_renderDelete_def Let_def snd_blocks ids_loop_eq
      dest!: toResult_params split: sum.splits if_splits)

lemma milvus_delete_ids:
  assumes "milvus_renderDelete marshal ast ps = Inr res"
  shows "Name ` set (IDs ast) \<subseteq> set (RequiredParams res)"
proof (cases "IDs ast = []")
  case True
  then show ?thesis by simp
next
  case False
  from milvus_delete_ids_params [OF assms False] show ?thesis by auto
qed

lemma weaviate_delete_params:
  assumes "weaviate_renderDelete marshal ast ps = Inr res"
  shows "RequiredParams res = ps
           @ (if IDs ast \<noteq> [] then map Name (IDs ast)
              else if DeleteAll ast then clause_params (FilterClause ast) else [])
           @ opt_param (Namespace ast)"
  using assms
  by (auto simp add: weaviate_renderDelete_def Let_def snd_blocks ids_loop_eq clause_params_def
      dest!: toResult_params weaviate_emit_filter_params split: sum.splits if_splits)

lemma pinecone_fetch_params:
  "pinecone_renderFetch marshal ast ps = Inr res \<Longrightarrow>
   RequiredParams res = ps @ map Name (IDs ast) @ opt_param (Namespace ast)"
  by (auto simp add: pinecone_renderFetch_def Let_def snd_blocks ids_loop_eq
      dest!: toResult_params)

lemma qdrant_fetch_params:
  "qdrant_renderFetch marshal ast ps = Inr res \<Longrightarrow> RequiredParams res = ps @ map Name (IDs ast)"
  by (auto simp add: qdrant_renderFetch_def Let_def snd_blocks ids_loop_eq
      dest!: toResult_params)

lemma milvus_fetch_params:
  "milvus_renderFetch marshal ast ps = Inr res \<Longrightarrow>
   RequiredParams res = ps @ map Name (IDs ast) @ opt_param (Namespace ast)"
  by (auto simp add: milvus_renderFetch_def Let_def snd_blocks ids_loop_eq opt_param_def
      dest!: toResult_params split: option.splits)

lemma weaviate_fetch_params:
  "weaviate_renderFetch marshal ast ps = Inr res \<Longrightarrow>
   RequiredParams res = ps @ map Name (IDs ast) @ opt_param (Namespace ast)"
  by (auto simp add: weaviate_renderFetch_def Let_def snd_blocks ids_loop_eq
      dest!: toResult_params split: if_splits)

lemma pinecone_update_params:
  "pinecone_renderUpdate marshal rng ast ps = Inr res \<Longrightarrow>
   \<exists>id0 rest. IDs ast = id0 # rest \<and>
     RequiredParams res = ps @ [Name id0]
       @ (if Updates ast \<noteq> Map.empty then map (\<lambda>e. Name (snd e)) (rng 0) else [])
       @ opt_param (Namespace ast)"
  by (auto simp add: pinecone_renderUpdate_def Let_def snd_blocks
      dest!: toResult_params split: list.splits if_splits)

lemma qdrant_update_params:
  "qdrant_renderUpdate marshal rng ast ps = Inr res \<Longrightarrow>
   RequiredParams res = ps @ map Name (IDs ast) @ map (\<lambda>e. Name (snd e)) (rng 0)"
  by (auto simp add: qdrant_renderUpdate_def Let_def snd_blocks ids_loop_eq
      dest!: toResult_params)

lemma weaviate_update_params:
  "weaviate_renderUpdate marshal rng ast ps = Inr res \<Longrightarrow>
   \<exists>id0 rest. IDs ast = id0 # rest \<and>
     RequiredParams res = ps @ [Name id0] @ map (\<lambda>e. Name (snd e)) (rng 0)
       @ opt_param (Namespace ast)"
  by (auto simp add: weaviate_renderUpdate_def Let_def snd_blocks
      dest!: toResult_params split: list.splits if_splits)

lemma milvus_update_loop_params:
  "set ps \<union> Name ` set ids \<subseteq> set (snd (milvus_update_loop rng i ids data ps))"
proof (induction ids arbitrary: i data ps)
  case Nil
  then show ?case by simp
next
  case (Cons p rest)
  have "set (ps @ [Name p] @ map (\<lambda>e. Name (snd e)) (rng i)) \<union> Name ` set rest
    \<subseteq> set (snd (milvus_update_loop rng (Suc i) rest
          (data @ [JObj (fst (range_loop (rng i) (emit_param ''id'' p (Map.empty, ps))))])
          (ps @ [Name p] @ map (\<lambda>e. Name (snd e)) (rng i))))"
    by (rule Cons.IH)
  then show ?case
    by (auto simp add: Let_def snd_blocks)
qed

lemma milvus_update_params:
  "milvus_renderUpdate marshal rng ast ps = Inr res \<Longrightarrow>
   set ps \<union> Name ` set (IDs ast) \<subseteq> set (RequiredParams res)"
  using milvus_update_loop_params [of ps "IDs ast" rng 0 "[]"]
  by (auto simp add: milvus_renderUpdate_def Let_def dest!: toResult_params split: prod.splits)

lemma records_loop_params:
  assumes body: "\<And>entries record ps0. set ps0 \<union> X record \<subseteq> set (snd (body entries record ps0))"
  shows "set ps \<union> (\<Union>record\<in>set records. X record)
           \<subseteq> set (snd (records_loop body rng i records vectors ps))"
proof (induction records arbitrary: i vectors ps)
  case Nil
  then show ?case by simp
next
  case (Cons rec0 rest)
  obtain vec ps1 where step: "body (rng i) rec0 ps = (vec, ps1)" by (cases "body (rng i) rec0 ps")
  from body [of ps rec0 "rng i"] step have here: "set ps \<union> X rec0 \<subseteq> set ps1" by simp
  from Cons.IH [of ps1 "Suc i" "vectors @ [vec]"]
  have "set ps1 \<union> (\<Union>record\<in>set rest. X record)
      \<subseteq> set (snd (records_loop body rng (Suc i) rest (vectors @ [vec]) ps1))" .
  with here step show ?case by auto
qed

lemma pinecone_upsert_record_params:
  "set ps0 \<union> (record_params record \<union> set (sparse_params record))
     \<subseteq> set (snd (pinecone_upsert_record entries record ps0))"
  by (auto simp add: pinecone_upsert_record_def Let_def snd_blocks record_params_def
      sparse_params_def split: option.splits)

lemma qdrant_upsert_record_params:
  "set ps0 \<union> record_params record \<subseteq> set (snd (qdrant_upsert_record entries record ps0))"
  by (auto simp add: qdrant_upsert_record_def Let_def snd_blocks record_params_def)

lemma milvus_upsert_record_params:
  "set ps0 \<union> record_params record \<subseteq> set (snd (milvus_upsert_record r entries record ps0))"
  by (auto simp add: milvus_upsert_record_def Let_def snd_blocks record_params_def)

lemma weaviate_upsert_record_params:
  "set ps0 \<union> record_params record \<subseteq> set (snd (weaviate_upsert_record c entries record ps0))"
  by (auto simp add: weaviate_upsert_record_def Let_def snd_blocks record_params_def)

lemma pinecone_upsert_params:
  assumes "pinecone_renderUpsert marshal rng ast ps = Inr res" "record \<in> set (Vectors ast)"
  shows "record_params record \<union> set (sparse_params record) \<subseteq> set (RequiredParams res)"
  using assms records_loop_params [of "\<lambda>r. record_params r \<union> set (sparse_params r)"
      pinecone_upsert_record ps "Vectors ast" rng 0 "[]", OF pinecone_upsert_record_params]
  by (auto simp add: pinecone_renderUpsert_def Let_def snd_blocks
      dest!: toResult_params split: prod.splits)

lemma qdrant_upsert_params:
  assumes "qdrant_renderUpsert marshal rng ast ps = Inr res" "record \<in> set (Vectors ast)"
  shows "record_params record \<subseteq> set (RequiredParams res)"
  using assms records_loop_params [of record_params
      qdrant_upsert_record ps "Vectors ast" rng 0 "[]", OF qdrant_upsert_record_params]
  by (auto simp add: qdrant_renderUpsert_def Let_def snd_blocks
      dest!: toResult_params split: prod.splits)

lemma milvus_upsert_params:
  assumes "milvus_renderUpsert r marshal rng ast ps = Inr res" "record \<in> set (Vectors ast)"
  shows "record_params record \<subseteq> set (RequiredParams res)"
  using assms records_loop_params [of record_params
      "milvus_upsert_record r" ps "Vectors ast" rng 0 "[]", OF milvus_upsert_record_params]
  by (auto simp add: milvus_renderUpsert_def Let_def snd_blocks
      dest!: toResult_params split: prod.splits)

lemma weaviate_upsert_params:
  assumes "weaviate_renderUpsert marshal rng ast ps = Inr res" "record \<in> set (Vectors ast)"
  shows "record_params record \<subseteq> set (RequiredParams res)"
  using assms records_loop_params [of record_params
      "weaviate_upsert_record (weaviate_formatClassName (CollectionName (Target ast)))"
      ps "Vectors ast" rng 0 "[]", OF weaviate_upsert_record_params]
  by (auto simp add: weaviate_renderUpsert_def Let_def snd_blocks
      dest!: toResult_params split: prod.splits)


subsection \<open>The Pinecone renderer on the inputs of its tests\<close>

text \<open>
  The tests of package \<^verbatim>\<open>pinecone\<close> compare the encoded text with a literal. The
  documents that the model hands to the encoder on the same inputs are the ones those
  literals encode, for instance
  \<^verbatim>\<open>{"id":":id1","setMetadata":{"category":":new_cat"}}\<close> in \<^verbatim>\<open>TestRenderUpdate\<close>.
\<close>

lemma pinecone_TestRenderSearch:
  "Render Pinecone marshal rng (search_query\<lparr>IncludeMetadata := True\<rparr>) =
     toResult marshal
       [''topK'' \<mapsto> JInt 10, ''includeValues'' \<mapsto> JBool False,
        ''includeMetadata'' \<mapsto> JBool True, ''vector'' \<mapsto> JStr '':query_vec'']
       [''query_vec'']"
  by (simp add: eval_defs pinecone_defs Let_def split: option.splits)

lemma pinecone_TestRenderSearchWithFilter:
  "Render Pinecone marshal rng
     (search_query\<lparr>IncludeMetadata := True,
                    FilterClause := Some (FilterCondition category EQ (P ''cat''))\<rparr>) =
     toResult marshal
       [''topK'' \<mapsto> JInt 10, ''includeValues'' \<mapsto> JBool False,
        ''includeMetadata'' \<mapsto> JBool True, ''vector'' \<mapsto> JStr '':query_vec'',
        ''filter'' \<mapsto> JObj [''category'' \<mapsto> JObj [''$eq'' \<mapsto> JStr '':cat'']]]
       [''query_vec'', ''cat'']"
  by (simp add: eval_defs pinecone_defs Let_def split: option.splits)

lemma pinecone_TestRenderUpsert:
  "rng 0 = [(category, P ''cat1'')] \<Longrightarrow>
   Render Pinecone marshal rng
     (zero_AST\<lparr>Operation := OpUpsert, Target := products,
        Vectors := [\<lparr>ID = P ''id1'',
                     Vector = \<lparr>VecLiteral = None, VecParam = Some (P ''vec1'')\<rparr>,
                     Metadata = [category \<mapsto> P ''cat1''], SparseVector = None\<rparr>]\<rparr>) =
     toResult marshal
       [''vectors'' \<mapsto>
          JArr [JObj [''id'' \<mapsto> JStr '':id1'', ''values'' \<mapsto> JStr '':vec1'',
                      ''metadata'' \<mapsto> JObj [''category'' \<mapsto> JStr '':cat1'']]]]
       [''id1'', ''vec1'', ''cat1'']"
  by (simp add: eval_defs pinecone_defs Let_def split: option.splits)

lemma pinecone_TestRenderDelete:
  "Render Pinecone marshal rng delete_by_ids =
     toResult marshal [''ids'' \<mapsto> JArr [JStr '':id1'', JStr '':id2'']] [''id1'', ''id2'']"
  by (simp add: eval_defs pinecone_defs Let_def split: option.splits)

lemma pinecone_TestRenderUpdate:
  "rng 0 = [(category, P ''new_cat'')] \<Longrightarrow>
   Render Pinecone marshal rng
     (zero_AST\<lparr>Operation := OpUpdate, Target := products, IDs := [P ''id1''],
        Updates := [category \<mapsto> P ''new_cat'']\<rparr>) =
     toResult marshal
       [''id'' \<mapsto> JStr '':id1'',
        ''setMetadata'' \<mapsto> JObj [''category'' \<mapsto> JStr '':new_cat'']]
       [''id1'', ''new_cat'']"
  by (simp add: eval_defs pinecone_defs Let_def split: option.splits)

subsection \<open>Validation comes first\<close>

text \<open>
  Claim C6. Every renderer calls the validator first. When validation fails with an error,
  \<^verbatim>\<open>Render\<close> returns that error, wrapped as ``invalid AST'', and no result: nothing is
  rendered and no document exists.
\<close>

theorem render_stops_at_validation:
  "Validate ast = Some err \<Longrightarrow> Render r marshal rng ast = Inl (InvalidAST err)"
  by (cases r) (simp_all add: pinecone_Render_def qdrant_Render_def milvus_Render_def
      weaviate_Render_def)

theorem render_stops_at_validation_witness:
  "Validate zero_AST = Some TargetRequired \<and>
   Render Pinecone accepting_marshal no_entries zero_AST = Inl (InvalidAST TargetRequired) \<and>
   Render (Qdrant qdrant_New) accepting_marshal no_entries zero_AST
     = Inl (InvalidAST TargetRequired) \<and>
   Render (Milvus milvus_New) accepting_marshal no_entries zero_AST
     = Inl (InvalidAST TargetRequired) \<and>
   Render Weaviate accepting_marshal no_entries zero_AST = Inl (InvalidAST TargetRequired)"
proof -
  have failed: "Validate zero_AST = Some TargetRequired"
    by (simp add: Validate_def zero_AST_def)
  show ?thesis
    using failed render_stops_at_validation [OF failed] by simp
qed

subsection \<open>Deleting by filter\<close>

text \<open>
  Claim C5. A DELETE tree with a filter and without the \<^verbatim>\<open>DeleteAll\<close> flag fails
  \<^verbatim>\<open>validateDelete\<close> with the ``requires DeleteAll'' error, whatever its ID list is, and so
  does \<^verbatim>\<open>Validate\<close> once the target collection is named. A DELETE tree with IDs and no
  filter never meets that error and validates the same with the flag set or not: it passes
  whenever it has at most \<^verbatim>\<open>MaxIDsPerFetch\<close> IDs.
\<close>

theorem delete_by_filter_needs_flag:
  "(FilterClause ast \<noteq> None \<and> \<not> DeleteAll ast \<longrightarrow>
      validateDelete ast = Some DeleteRequiresDeleteAll \<and>
      (Operation ast = OpDelete \<and> CollectionName (Target ast) \<noteq> [] \<longrightarrow>
         Validate ast = Some DeleteRequiresDeleteAll)) \<and>
   (IDs ast \<noteq> [] \<and> FilterClause ast = None \<longrightarrow>
      validateDelete ast \<noteq> Some DeleteRequiresDeleteAll \<and>
      validateDelete (ast\<lparr>DeleteAll := b\<rparr>) = validateDelete ast \<and>
      (int (length (IDs ast)) \<le> MaxIDsPerFetch \<longrightarrow>
         validateDelete ast = None \<and>
         (Operation ast = OpDelete \<and> CollectionName (Target ast) \<noteq> [] \<longrightarrow>
            Validate ast = None)))"
  by (auto simp add: validateDelete_def Validate_def Operation_defs)

theorem delete_by_filter_needs_flag_witness:
  "FilterClause delete_unflagged \<noteq> None \<and> \<not> DeleteAll delete_unflagged \<and>
   IDs delete_unflagged \<noteq> [] \<and>
   Operation delete_unflagged = OpDelete \<and> CollectionName (Target delete_unflagged) \<noteq> [] \<and>
   Validate delete_unflagged = Some DeleteRequiresDeleteAll \<and>
   IDs delete_by_ids \<noteq> [] \<and> FilterClause delete_by_ids = None \<and> \<not> DeleteAll delete_by_ids \<and>
   int (length (IDs delete_by_ids)) \<le> MaxIDsPerFetch \<and>
   Operation delete_by_ids = OpDelete \<and> CollectionName (Target delete_by_ids) \<noteq> [] \<and>
   Validate delete_by_ids = None"
  using delete_by_filter_needs_flag [of delete_unflagged]
    delete_by_filter_needs_flag [of delete_by_ids]
  by (simp add: delete_unflagged_def delete_by_ids_def zero_AST_def products_def
      vectql_Eq_def Max_defs)




subsection \<open>The depth check\<close>

text \<open>
  Claim C4, amended. \<^verbatim>\<open>validateFilterDepth\<close>, started at depth 0, accepts every filter
  tree of nesting depth at most 5 and rejects every deeper one with the error
  ``filter nesting too deep: 6 > 5'', which names the maximum. The validator runs this check
  for SEARCH only: a SEARCH tree that passes the checks before it (target, query vector,
  TopK, number of metadata fields) validates when its filter has depth at most 5, and with a
  deeper filter fails validation with that error, so that every renderer returns it wrapped
  as ``invalid AST'' and renders nothing.
\<close>

theorem depth_check:
  "(filter_depth f \<le> 5 \<longrightarrow> validateFilterDepth f 0 = None) \<and>
   (6 \<le> filter_depth f \<longrightarrow>
      validateFilterDepth f 0 = Some (FilterTooDeep 6 MaxFilterDepth) \<and>
      error_message (FilterTooDeep 6 MaxFilterDepth) = ''filter nesting too deep: 6 > 5'') \<and>
   (Operation ast = OpSearch \<and> CollectionName (Target ast) \<noteq> [] \<and> QueryVector ast \<noteq> None \<and>
    TopK ast = Some t \<and> (\<forall>s. Static t = Some s \<longrightarrow> 0 < s \<and> s \<le> MaxTopK) \<and>
    int (length (MetadataFields ast)) \<le> MaxMetadataFields \<and> FilterClause ast = Some f \<longrightarrow>
      (filter_depth f \<le> 5 \<longrightarrow> Validate ast = None) \<and>
      (6 \<le> filter_depth f \<longrightarrow>
         Validate ast = Some (FilterTooDeep 6 MaxFilterDepth) \<and>
         Render r marshal rng ast = Inl (InvalidAST (FilterTooDeep 6 MaxFilterDepth))))"
proof -
  have depth: "validateFilterDepth f 0 =
      (if 5 < int (filter_depth f) then Some (FilterTooDeep 6 MaxFilterDepth) else None)"
    using validateFilterDepth_from(1) [of 0 f] by (simp add: MaxFilterDepth_def)
  have msg: "error_message (FilterTooDeep 6 MaxFilterDepth) = ''filter nesting too deep: 6 > 5''"
    by code_simp
  have search: "Validate ast = validateFilterDepth f 0"
    if "Operation ast = OpSearch" "CollectionName (Target ast) \<noteq> []" "QueryVector ast \<noteq> None"
      "TopK ast = Some t" "\<forall>s. Static t = Some s \<longrightarrow> 0 < s \<and> s \<le> MaxTopK"
      "int (length (MetadataFields ast)) \<le> MaxMetadataFields" "FilterClause ast = Some f"
    using that by (auto simp add: Validate_def validateSearch_def split: option.splits)
  show ?thesis
    using depth msg search Render_invalid [of ast "FilterTooDeep 6 MaxFilterDepth" r marshal rng]
    by auto
qed

theorem depth_check_witness:
  "filter_depth deep6 = 6 \<and>
   validateFilterDepth deep6 0 = Some (FilterTooDeep 6 MaxFilterDepth) \<and>
   Operation search_deep6 = OpSearch \<and> FilterClause search_deep6 = Some deep6 \<and>
   Validate search_deep6 = Some (FilterTooDeep 6 MaxFilterDepth) \<and>
   Render Weaviate accepting_marshal no_entries search_deep6
     = Inl (InvalidAST (FilterTooDeep 6 MaxFilterDepth)) \<and>
   filter_depth (vectql_Eq category (P ''cat'')) \<le> 5 \<and>
   validateFilterDepth (vectql_Eq category (P ''cat'')) 0 = None"
  using depth_check [of deep6 search_deep6 "\<lparr>Static = Some 10, PageParam = None\<rparr>" Weaviate
      accepting_marshal no_entries]
    depth_check [of "vectql_Eq category (P ''cat'')"]
  by (simp add: eval_defs)

text \<open>
  The claim as stated, for every tree, fails: a DELETE and a FETCH tree with a filter of
  depth 6 validate, and are rendered.
\<close>

theorem depth_check_counterexample:
  "filter_depth deep6 = 6 \<and>
   FilterClause delete_deep6 = Some deep6 \<and>
   Validate delete_deep6 = None \<and>
   Render (Qdrant qdrant_New) accepting_marshal no_entries delete_deep6
     = Inr \<lparr>JSON = ''{...}'', RequiredParams = [''cat'']\<rparr> \<and>
   FilterClause fetch_deep6 = Some deep6 \<and>
   Validate fetch_deep6 = None \<and>
   Render (Qdrant qdrant_New) accepting_marshal no_entries fetch_deep6
     = Inr \<lparr>JSON = ''{...}'', RequiredParams = [''id1'', ''id2'']\<rparr>"
  by (simp add: eval_defs qdrant_defs)

subsection \<open>Filter conditions\<close>

text \<open>
  Claim C7. An operator outside a dialect's mapping table is rendered as the dialect's
  equality token and the condition renders without an error: \<^verbatim>\<open>$eq\<close> for Pinecone,
  \<^verbatim>\<open>==\<close> for Milvus, \<^verbatim>\<open>Equal\<close> for Weaviate.
\<close>

theorem unmapped_operator_defaults:
  "(op \<notin> {EQ, NE, GT, GE, LT, LE, IN, NotIn} \<longrightarrow>
      pinecone_mapOperator op = ''$eq'' \<and>
      renderFilter Pinecone (FilterCondition field op value) params =
        Inr (JObj [FieldName field \<mapsto> JObj [''$eq'' \<mapsto> JStr (placeholder (Name value))]],
             params @ [Name value])) \<and>
   (op \<notin> {EQ, NE, GT, GE, LT, LE, IN, NotIn, Contains} \<longrightarrow>
      milvus_mapOperator op = ''=='' \<and>
      renderFilter (Milvus m) (FilterCondition field op value) params =
        Inr (JStr (FieldName field @ '' == :'' @ Name value), params @ [Name value])) \<and>
   (op \<notin> {EQ, NE, GT, GE, LT, LE, Contains, Exists} \<longrightarrow>
      weaviate_mapOperator op = ''Equal'' \<and>
      renderFilter Weaviate (FilterCondition field op value) params =
        Inr (JObj [''path'' \<mapsto> strings_json [FieldName field],
                   ''operator'' \<mapsto> JStr ''Equal'',
                   ''valueString'' \<mapsto> JStr (placeholder (Name value))],
             params @ [Name value]))"
  by (simp add: pinecone_mapOperator_def milvus_mapOperator_def weaviate_mapOperator_def
      milvus_renderFilter_json_def)

theorem unmapped_operator_defaults_witness:
  "StartsWith \<notin> {EQ, NE, GT, GE, LT, LE, IN, NotIn} \<and>
   StartsWith \<notin> {EQ, NE, GT, GE, LT, LE, IN, NotIn, Contains} \<and>
   StartsWith \<notin> {EQ, NE, GT, GE, LT, LE, Contains, Exists} \<and>
   pinecone_mapOperator StartsWith = ''$eq'' \<and>
   milvus_mapOperator StartsWith = ''=='' \<and>
   weaviate_mapOperator StartsWith = ''Equal'' \<and>
   renderFilter (Milvus milvus_New) (FilterCondition category StartsWith (P ''prefix'')) []
     = Inr (JStr ''category == :prefix'', [''prefix''])"
  using unmapped_operator_defaults [of StartsWith category "P ''prefix''" "[]" milvus_New]
  by (simp add: FilterOperator_defs category_def P_def)

text \<open>
  Claim C9. An existence check built by \<^verbatim>\<open>Exists\<close> or \<^verbatim>\<open>NotExists\<close> carries the zero
  \<^verbatim>\<open>Param\<close>. Every renderer still appends its name, the empty string, to the required
  parameters and writes its placeholder, the bare colon, into the document.
\<close>

theorem existence_check_renders_empty_param:
  "renderFilter Pinecone (vectql_Exists field) params =
     Inr (JObj [FieldName field \<mapsto> JObj [''$eq'' \<mapsto> JStr '':'']], params @ ['''']) \<and>
   renderFilter Pinecone (vectql_NotExists field) params =
     Inr (JObj [FieldName field \<mapsto> JObj [''$eq'' \<mapsto> JStr '':'']], params @ ['''']) \<and>
   renderFilter (Qdrant q) (vectql_Exists field) params =
     Inr (JObj [''must'' \<mapsto> JArr [JObj [''key'' \<mapsto> JStr (FieldName field),
                                         ''match'' \<mapsto> JObj [''value'' \<mapsto> JStr '':'']]]],
          params @ ['''']) \<and>
   renderFilter (Qdrant q) (vectql_NotExists field) params =
     Inr (JObj [''must'' \<mapsto> JArr [JObj [''key'' \<mapsto> JStr (FieldName field),
                                         ''match'' \<mapsto> JObj [''value'' \<mapsto> JStr '':'']]]],
          params @ ['''']) \<and>
   renderFilter (Milvus m) (vectql_Exists field) params =
     Inr (JStr (FieldName field @ '' == :''), params @ ['''']) \<and>
   renderFilter (Milvus m) (vectql_NotExists field) params =
     Inr (JStr (FieldName field @ '' == :''), params @ ['''']) \<and>
   renderFilter Weaviate (vectql_Exists field) params =
     Inr (JObj [''path'' \<mapsto> strings_json [FieldName field],
                ''operator'' \<mapsto> JStr ''IsNull'',
                ''valueString'' \<mapsto> JStr '':''], params @ ['''']) \<and>
   renderFilter Weaviate (vectql_NotExists field) params =
     Inr (JObj [''path'' \<mapsto> strings_json [FieldName field],
                ''operator'' \<mapsto> JStr ''Equal'',
                ''valueString'' \<mapsto> JStr '':''], params @ [''''])"
  by (simp add: vectql_Exists_def vectql_NotExists_def zero_Param_def placeholder_def
      pinecone_mapOperator_def milvus_mapOperator_def weaviate_mapOperator_def
      qdrant_mapConditionType_def condMust_def condMustNot_def
      milvus_renderFilter_json_def FilterOperator_defs)

subsection \<open>Geo filters and the totality of rendering\<close>




subsection \<open>Completeness of the required parameters\<close>

text \<open>
  Claim C1, amended. When a renderer returns a result, the required parameters contain
  \<^item> for SEARCH, the query vector parameter and every parameter of the filter tree;
  \<^item> for UPSERT, the ID and the dense vector parameter of every record and, with the
    Pinecone renderer, the sparse vector parameter;
  \<^item> for DELETE, every ID and, when there are no IDs, every parameter of the filter tree;
  \<^item> for FETCH, every ID;
  \<^item> for UPDATE, the first ID and, with the Qdrant and the Milvus renderer, every ID.

  For the Milvus renderer the statements on the filter tree are for trees whose \<^verbatim>\<open>NOT\<close>
  groups have at most one child.
\<close>

theorem required_params_cover_rendered_fields:
  assumes "Render r marshal rng ast = Inr res"
  shows "(Operation ast = OpSearch \<longrightarrow>
            (\<forall>v. QueryVector ast = Some v \<longrightarrow> set (vector_params v) \<subseteq> set (RequiredParams res)) \<and>
            (\<forall>f. FilterClause ast = Some f \<longrightarrow> (is_Milvus r \<longrightarrow> not_unary f) \<longrightarrow>
                 set (filter_params f) \<subseteq> set (RequiredParams res))) \<and>
         (Operation ast = OpUpsert \<longrightarrow>
            (\<forall>record \<in> set (Vectors ast).
               Name (ID record) \<in> set (RequiredParams res) \<and>
               set (vector_params (Vector record)) \<subseteq> set (RequiredParams res) \<and>
               (r = Pinecone \<longrightarrow> set (sparse_params record) \<subseteq> set (RequiredParams res)))) \<and>
         (Operation ast = OpDelete \<longrightarrow>
            Name ` set (IDs ast) \<subseteq> set (RequiredParams res) \<and>
            (IDs ast = [] \<longrightarrow>
               (\<forall>f. FilterClause ast = Some f \<longrightarrow> (is_Milvus r \<longrightarrow> not_unary f) \<longrightarrow>
                    set (filter_params f) \<subseteq> set (RequiredParams res)))) \<and>
         (Operation ast = OpFetch \<longrightarrow> Name ` set (IDs ast) \<subseteq> set (RequiredParams res)) \<and>
         (Operation ast = OpUpdate \<longrightarrow>
            (\<exists>id0 rest. IDs ast = id0 # rest \<and> Name id0 \<in> set (RequiredParams res)) \<and>
            (r \<noteq> Pinecone \<and> r \<noteq> Weaviate \<longrightarrow> Name ` set (IDs ast) \<subseteq> set (RequiredParams res)))"
proof -
  note valid = Render_valid [OF assms]
  note flag = valid_delete_flag [OF valid]
  show ?thesis
  proof (cases r)
    case Pinecone
    with assms valid have run: "pinecone_Render marshal rng ast = Inr res" by simp
    have search: "Operation ast = OpSearch \<Longrightarrow> pinecone_renderSearch marshal ast [] = Inr res"
      and upsert: "Operation ast = OpUpsert \<Longrightarrow> pinecone_renderUpsert marshal rng ast [] = Inr res"
      and delete: "Operation ast = OpDelete \<Longrightarrow> pinecone_renderDelete marshal ast [] = Inr res"
      and fetch: "Operation ast = OpFetch \<Longrightarrow> pinecone_renderFetch marshal ast [] = Inr res"
      and update: "Operation ast = OpUpdate \<Longrightarrow> pinecone_renderUpdate marshal rng ast [] = Inr res"
      using run valid by (simp_all add: pinecone_Render_def Operation_defs)
    show ?thesis
      using pinecone_search_params [OF search] pinecone_upsert_params [OF upsert]
        pinecone_delete_params [OF delete] pinecone_fetch_params [OF fetch]
        pinecone_update_params [OF update] flag Pinecone
      by (auto simp add: Operation_defs record_params_def clause_params_def is_Milvus_def)
  next
    case (Qdrant q)
    with assms valid have run: "qdrant_Render q marshal rng ast = Inr res" by simp
    have search: "Operation ast = OpSearch \<Longrightarrow> qdrant_renderSearch q marshal ast [] = Inr res"
      and upsert: "Operation ast = OpUpsert \<Longrightarrow> qdrant_renderUpsert marshal rng ast [] = Inr res"
      and delete: "Operation ast = OpDelete \<Longrightarrow> qdrant_renderDelete marshal ast [] = Inr res"
      and fetch: "Operation ast = OpFetch \<Longrightarrow> qdrant_renderFetch marshal ast [] = Inr res"
      and update: "Operation ast = OpUpdate \<Longrightarrow> qdrant_renderUpdate marshal rng ast [] = Inr res"
      using run valid by (simp_all add: qdrant_Render_def Operation_defs)
    have ids: "Operation ast = OpUpdate \<Longrightarrow>
        \<exists>id0 rest. IDs ast = id0 # rest \<and> Name id0 \<in> set (RequiredParams res)"
      using validated_update_IDs [OF valid] qdrant_update_params [OF update]
      by (cases "IDs ast") auto
    show ?thesis
      using qdrant_search_params [OF search] qdrant_upsert_params [OF upsert]
        qdrant_delete_params [OF delete] qdrant_fetch_params [OF fetch]
        qdrant_update_params [OF update] flag Qdrant ids
      by (auto simp add: Operation_defs record_params_def clause_params_def is_Milvus_def)
  next
    case (Milvus m)
    with assms valid have run: "milvus_Render m marshal rng ast = Inr res" by simp
    have search: "Operation ast = OpSearch \<Longrightarrow> milvus_renderSearch m marshal ast [] = Inr res"
      and upsert: "Operation ast = OpUpsert \<Longrightarrow> milvus_renderUpsert m marshal rng ast [] = Inr res"
      and delete: "Operation ast = OpDelete \<Longrightarrow> milvus_renderDelete marshal ast [] = Inr res"
      and fetch: "Operation ast = OpFetch \<Longrightarrow> milvus_renderFetch marshal ast [] = Inr res"
      and update: "Operation ast = OpUpdate \<Longrightarrow> milvus_renderUpdate marshal rng ast [] = Inr res"
      using run valid by (simp_all add: milvus_Render_def Operation_defs)
    have ids: "Operation ast = OpUpdate \<Longrightarrow>
        \<exists>id0 rest. IDs ast = id0 # rest \<and> Name id0 \<in> set (RequiredParams res)"
      using validated_update_IDs [OF valid] milvus_update_params [OF update]
      by (cases "IDs ast") auto
    show ?thesis
      using milvus_search_params [OF search] milvus_upsert_params [OF upsert]
        milvus_delete_params [OF delete] milvus_delete_ids [OF delete]
        milvus_search_vector [OF search] milvus_fetch_params [OF fetch]
        milvus_update_params [OF update] flag Milvus ids
      by (auto simp add: Operation_defs record_params_def clause_params_def is_Milvus_def)
  next
    case Weaviate
    with assms valid have run: "weaviate_Render marshal rng ast = Inr res" by simp
    have search: "Operation ast = OpSearch \<Longrightarrow> weaviate_renderSearch marshal ast [] = Inr res"
      and upsert: "Operation ast = OpUpsert \<Longrightarrow> weaviate_renderUpsert marshal rng ast [] = Inr res"
      and delete: "Operation ast = OpDelete \<Longrightarrow> weaviate_renderDelete marshal ast [] = Inr res"
      and fetch: "Operation ast = OpFetch \<Longrightarrow> weaviate_renderFetch marshal ast [] = Inr res"
      and update: "Operation ast = OpUpdate \<Longrightarrow> weaviate_renderUpdate marshal rng ast [] = Inr res"
      using run valid by (simp_all add: weaviate_Render_def Operation_defs)
    show ?thesis
      using weaviate_search_params [OF search] weaviate_upsert_params [OF upsert]
        weaviate_delete_params [OF delete] weaviate_fetch_params [OF fetch]
        weaviate_update_params [OF update] flag Weaviate
      by (auto simp add: Operation_defs record_params_def clause_params_def is_Milvus_def)
  qed
qed

theorem required_params_cover_rendered_fields_witness:
  "Render (Qdrant qdrant_New) accepting_marshal no_entries search_filtered
     = Inr \<lparr>JSON = ''{...}'',
            RequiredParams = [''query_vec'', ''cat'', ''lat'', ''lon'', ''radius'']\<rparr> \<and>
   Operation search_filtered = OpSearch \<and>
   map_option vector_params (QueryVector search_filtered) = Some [''query_vec''] \<and>
   map_option filter_params (FilterClause search_filtered)
     = Some [''cat'', ''lat'', ''lon'', ''radius''] \<and>
   Render Pinecone accepting_marshal no_entries upsert_sparse
     = Inr \<lparr>JSON = ''{...}'', RequiredParams = [''id1'', ''vec1'', ''sv'']\<rparr> \<and>
   Operation upsert_sparse = OpUpsert \<and>
   concat (map sparse_params (Vectors upsert_sparse)) = [''sv''] \<and>
   Render (Milvus milvus_New) accepting_marshal no_entries delete_by_filter
     = Inr \<lparr>JSON = ''{...}'', RequiredParams = [''cat'']\<rparr> \<and>
   Operation delete_by_filter = OpDelete \<and> IDs delete_by_filter = [] \<and>
   map_option filter_params (FilterClause delete_by_filter) = Some [''cat''] \<and>
   map_option not_unary (FilterClause delete_by_filter) = Some True \<and>
   Render Weaviate accepting_marshal no_entries fetch_by_ids
     = Inr \<lparr>JSON = ''{...}'', RequiredParams = [''id1'', ''id2'']\<rparr> \<and>
   Operation fetch_by_ids = OpFetch \<and> map Name (IDs fetch_by_ids) = [''id1'', ''id2''] \<and>
   Render (Milvus milvus_New) accepting_marshal category_first update_two_entries
     = Inr \<lparr>JSON = ''{...}'',
            RequiredParams = [''id1'', ''cat'', ''price'', ''id2'', ''cat'', ''price'']\<rparr> \<and>
   Operation update_two_entries = OpUpdate \<and>
   map Name (IDs update_two_entries) = [''id1'', ''id2'']"
proof -
  have search: "Render (Qdrant qdrant_New) accepting_marshal no_entries search_filtered
     = Inr \<lparr>JSON = ''{...}'',
            RequiredParams = [''query_vec'', ''cat'', ''lat'', ''lon'', ''radius'']\<rparr>"
    by (simp add: eval_defs qdrant_defs)
  have upsert: "Render Pinecone accepting_marshal no_entries upsert_sparse
     = Inr \<lparr>JSON = ''{...}'', RequiredParams = [''id1'', ''vec1'', ''sv'']\<rparr>"
    by (simp add: eval_defs pinecone_defs)
  have delete: "Render (Milvus milvus_New) accepting_marshal no_entries delete_by_filter
     = Inr \<lparr>JSON = ''{...}'', RequiredParams = [''cat'']\<rparr>"
    by (simp add: eval_defs milvus_defs)
  have fetch: "Render Weaviate accepting_marshal no_entries fetch_by_ids
     = Inr \<lparr>JSON = ''{...}'', RequiredParams = [''id1'', ''id2'']\<rparr>"
    by (simp add: eval_defs weaviate_defs ids_loop_eq)
  have update: "Render (Milvus milvus_New) accepting_marshal category_first update_two_entries
     = Inr \<lparr>JSON = ''{...}'',
            RequiredParams = [''id1'', ''cat'', ''price'', ''id2'', ''cat'', ''price'']\<rparr>"
    by (simp add: eval_defs milvus_defs)
  show ?thesis
    using required_params_cover_rendered_fields [OF search]
      required_params_cover_rendered_fields [OF upsert]
      required_params_cover_rendered_fields [OF delete]
      required_params_cover_rendered_fields [OF fetch]
      required_params_cover_rendered_fields [OF update]
      search upsert delete fetch update
    by (simp add: eval_defs vector_params_def sparse_params_def)
qed

text \<open>
  The claim as stated fails. The Qdrant renderer drops the sparse vector parameter of an
  UPSERT record; the Pinecone renderer drops the filter of a DELETE tree that also has IDs,
  and every ID of an UPDATE tree but the first; the Milvus renderer drops the second child
  of a \<^verbatim>\<open>NOT\<close> group; no renderer walks the filter of a FETCH tree.
\<close>

theorem required_params_counterexample:
  "Validate upsert_sparse = None \<and>
   Render (Qdrant qdrant_New) accepting_marshal no_entries upsert_sparse
     = Inr \<lparr>JSON = ''{...}'', RequiredParams = [''id1'', ''vec1'']\<rparr> \<and>
   concat (map sparse_params (Vectors upsert_sparse)) = [''sv''] \<and>
   ''sv'' \<notin> set [''id1'', ''vec1''] \<and>
   Validate delete_ids_and_filter = None \<and>
   Render Pinecone accepting_marshal no_entries delete_ids_and_filter
     = Inr \<lparr>JSON = ''{...}'', RequiredParams = [''id1'']\<rparr> \<and>
   map_option filter_params (FilterClause delete_ids_and_filter) = Some [''cat''] \<and>
   ''cat'' \<notin> set [''id1''] \<and>
   Validate update_two_entries = None \<and>
   Render Pinecone accepting_marshal category_first update_two_entries
     = Inr \<lparr>JSON = ''{...}'', RequiredParams = [''id1'', ''cat'', ''price'']\<rparr> \<and>
   map Name (IDs update_two_entries) = [''id1'', ''id2''] \<and>
   ''id2'' \<notin> set [''id1'', ''cat'', ''price''] \<and>
   Validate search_not_binary = None \<and>
   Render (Milvus milvus_New) accepting_marshal no_entries search_not_binary
     = Inr \<lparr>JSON = ''{...}'', RequiredParams = [''query_vec'', ''cat'']\<rparr> \<and>
   map_option filter_params (FilterClause search_not_binary) = Some [''cat'', ''max_price''] \<and>
   ''max_price'' \<notin> set [''query_vec'', ''cat''] \<and>
   Validate fetch_deep6 = None \<and>
   Render Weaviate accepting_marshal no_entries fetch_deep6
     = Inr \<lparr>JSON = ''{...}'', RequiredParams = [''id1'', ''id2'']\<rparr> \<and>
   map_option filter_params (FilterClause fetch_deep6) = Some [''cat''] \<and>
   ''cat'' \<notin> set [''id1'', ''id2'']"
  by (simp add: eval_defs qdrant_defs pinecone_defs milvus_defs weaviate_defs sparse_params_def
      ids_loop_eq)

subsection \<open>Ranging over maps\<close>

text \<open>
  Claim C3 says that two calls of \<^verbatim>\<open>Render\<close> on the same tree return the same document
  and the same list of required parameters. The emitters for UPSERT and UPDATE append the
  parameters of a metadata map in the order in which \<^verbatim>\<open>range\<close> visits it, and the Go
  runtime does not fix that order: both orders below are ranges of the same map of two
  entries, and the two calls return different lists.
\<close>

theorem range_order_changes_required_params:
  "is_range_of (category_first 0) two_entries \<and>
   is_range_of (price_first 0) two_entries \<and>
   Render Pinecone accepting_marshal category_first upsert_two_entries
     = Inr \<lparr>JSON = ''{...}'', RequiredParams = [''id1'', ''vec1'', ''cat'', ''price'']\<rparr> \<and>
   Render Pinecone accepting_marshal price_first upsert_two_entries
     = Inr \<lparr>JSON = ''{...}'', RequiredParams = [''id1'', ''vec1'', ''price'', ''cat'']\<rparr> \<and>
   Render (Milvus milvus_New) accepting_marshal category_first update_two_entries
     = Inr \<lparr>JSON = ''{...}'',
            RequiredParams = [''id1'', ''cat'', ''price'', ''id2'', ''cat'', ''price'']\<rparr> \<and>
   Render (Milvus milvus_New) accepting_marshal price_first update_two_entries
     = Inr \<lparr>JSON = ''{...}'',
            RequiredParams = [''id1'', ''price'', ''cat'', ''id2'', ''price'', ''cat'']\<rparr>"
  by (simp add: eval_defs pinecone_defs milvus_defs is_range_of_def fun_upd_twist)


end
